theory Spec2Isabelle
  imports Main "HOL-Library.Word"
begin

section \<open>Strings\<close>

text \<open>
  A JavaScript string is a sequence of 16-bit code units. String literals of the source
  are ASCII; \<open>ascii\<close> embeds them. Template literals are concatenations.
\<close>

type_synonym jsstring = "16 word list"

definition ascii :: "string \<Rightarrow> jsstring" where
  "ascii s = map of_char s"

definition nl :: jsstring where
  "nl = [0x0A]"

text \<open>
  \<open>String.prototype.toLowerCase\<close> and \<open>toUpperCase\<close> are built-ins of the language
  that consult the Unicode case tables; the handlers receive them as a parameter, so
  whatever is proved for every \<open>runtime\<close> holds for the real one.
\<close>

record runtime =
  toLowerCase :: "jsstring \<Rightarrow> jsstring"
  toUpperCase :: "jsstring \<Rightarrow> jsstring"

text \<open>
  For evaluation at concrete inputs: the two conversions on strings whose code units are
  all below \<open>0x100\<close> (Basic Latin and Latin-1 Supplement), where they work unit by unit.
  Sharp s has no single upper-case code unit and becomes \<open>SS\<close>; micro sign and
  y-diaeresis have their capitals outside Latin-1. Code units from \<open>0x100\<close> on are
  left as they are, which is not claimed to be what the language does there.
\<close>

definition lower_unit :: "16 word \<Rightarrow> 16 word" where
  "lower_unit u =
     (if 0x41 \<le> u \<and> u \<le> 0x5A then u + 0x20
      else if 0xC0 \<le> u \<and> u \<le> 0xDE \<and> u \<noteq> 0xD7 then u + 0x20
      else u)"

definition upper_unit :: "16 word \<Rightarrow> jsstring" where
  "upper_unit u =
     (if 0x61 \<le> u \<and> u \<le> 0x7A then [u - 0x20]
      else if u = 0xB5 then [0x39C]
      else if u = 0xDF then [0x53, 0x53]
      else if u = 0xFF then [0x178]
      else if 0xE0 \<le> u \<and> u \<le> 0xFE \<and> u \<noteq> 0xF7 then [u - 0x20]
      else [u])"

definition latin1 :: runtime where
  "latin1 = \<lparr>toLowerCase = map lower_unit, toUpperCase = (\<lambda>s. concat (map upper_unit s))\<rparr>"

text \<open>
  \<open>a ?? b\<close> takes \<open>b\<close> only when \<open>a\<close> is undefined; \<open>a || b\<close> on an optional string
  also takes \<open>b\<close> when \<open>a\<close> is the empty string; \<open>truthy\<close> is the test \<open>if (a)\<close>.
\<close>

definition nullish :: "'a option \<Rightarrow> 'a \<Rightarrow> 'a" where
  "nullish a b = (case a of None \<Rightarrow> b | Some v \<Rightarrow> v)"

definition truthy :: "jsstring option \<Rightarrow> bool" where
  "truthy a = (case a of None \<Rightarrow> False | Some v \<Rightarrow> v \<noteq> [])"

definition or_else :: "jsstring option \<Rightarrow> jsstring \<Rightarrow> jsstring" where
  "or_else a b = (case a of None \<Rightarrow> b | Some v \<Rightarrow> if v = [] then b else v)"

text \<open>
  \<^verbatim>\<open>
  function capitalizeFirstLetter(str: string): string {
      if (!str) return str;
      return str.charAt(0).toUpperCase() + str.slice(1);
  }
  \<close>
\<close>

definition capitalizeFirstLetter :: "runtime \<Rightarrow> jsstring \<Rightarrow> jsstring" where
  "capitalizeFirstLetter rt str =
     (case str of [] \<Rightarrow> str | c # rest \<Rightarrow> toUpperCase rt [c] @ rest)"

section \<open>Arrays\<close>

definition some :: "('a \<Rightarrow> bool) \<Rightarrow> 'a list \<Rightarrow> bool" where
  "some P xs = list_ex P xs"

text \<open>\<open>findIndex\<close> returns the first index whose element passes, or \<open>-1\<close>: here \<open>None\<close>.\<close>

fun findIndex :: "('a \<Rightarrow> bool) \<Rightarrow> 'a list \<Rightarrow> nat option" where
  "findIndex P [] = None"
| "findIndex P (x # xs) = (if P x then Some 0 else map_option Suc (findIndex P xs))"

text \<open>\<open>xs.splice(i, 1)\<close> removes the element at index \<open>i\<close>.\<close>

definition splice1 :: "nat \<Rightarrow> 'a list \<Rightarrow> 'a list" where
  "splice1 i xs = take i xs @ drop (Suc i) xs"

section \<open>The document\<close>

record Page =
  page_id :: jsstring
  page_title :: jsstring
  page_content :: jsstring

record SidebarItem =
  sb_id :: jsstring
  sb_label :: jsstring
  sb_active :: bool

record State =
  pages :: "Page list"
  sidebar :: "SidebarItem list"

definition emptyState :: State where
  "emptyState = \<lparr>pages = [], sidebar = []\<rparr>"

text \<open>The parameter objects of the tools: \<open>AddItemParams.item\<close> and \<open>UpdateItemParams.newItem\<close>.\<close>

record Item =
  item_id :: jsstring
  item_label :: "jsstring option"
  item_title :: "jsstring option"
  item_content :: "jsstring option"
  item_active :: "bool option"

record NewItem =
  new_id :: "jsstring option"
  new_label :: "jsstring option"
  new_title :: "jsstring option"
  new_content :: "jsstring option"
  new_active :: "bool option"

text \<open>The response of a tool: \<open>{content: [{type: "text", text}]}\<close>.\<close>

record ContentItem =
  content_type :: jsstring
  content_text :: jsstring

record ToolResponse =
  content :: "ContentItem list"

definition text_response :: "jsstring \<Rightarrow> ToolResponse" where
  "text_response t = \<lparr>content = [\<lparr>content_type = ascii ''text'', content_text = t\<rparr>]\<rparr>"

text \<open>The one text of a response (empty for a response of another shape).\<close>

definition response_text :: "ToolResponse \<Rightarrow> jsstring" where
  "response_text r = (case content r of [c] \<Rightarrow> content_text c | _ \<Rightarrow> [])"

section \<open>\<open>JSON.stringify(value, null, 2)\<close>\<close>

text \<open>
  The success messages print the entries with \<open>JSON.stringify(x, null, 2)\<close>. The entries are
  flat objects of strings and booleans, printed one member per line with an indent of two
  spaces, strings quoted as the language's \<open>QuoteJSONString\<close> does: quotation mark and
  backslash escaped, the control characters as their short escapes or \<open>\u00xx\<close>, a
  surrogate that is not part of a pair as \<open>\udxxx\<close>, every other code unit as it is.
\<close>

datatype json = JString jsstring | JBool bool

definition hex_digit :: "16 word \<Rightarrow> 16 word" where
  "hex_digit d = (if d < 10 then 0x30 + d else 0x61 + (d - 10))"

definition unicode_escape :: "16 word \<Rightarrow> jsstring" where
  "unicode_escape u =
     [0x5C, 0x75, hex_digit (drop_bit 12 u), hex_digit (and (drop_bit 8 u) 0xF),
      hex_digit (and (drop_bit 4 u) 0xF), hex_digit (and u 0xF)]"

definition is_high_surrogate :: "16 word \<Rightarrow> bool" where
  "is_high_surrogate u = (0xD800 \<le> u \<and> u \<le> 0xDBFF)"

definition is_low_surrogate :: "16 word \<Rightarrow> bool" where
  "is_low_surrogate u = (0xDC00 \<le> u \<and> u \<le> 0xDFFF)"

definition quote_unit :: "16 word \<Rightarrow> jsstring" where
  "quote_unit u =
     (if u = 0x08 then [0x5C, 0x62]
      else if u = 0x09 then [0x5C, 0x74]
      else if u = 0x0A then [0x5C, 0x6E]
      else if u = 0x0C then [0x5C, 0x66]
      else if u = 0x0D then [0x5C, 0x72]
      else if u = 0x22 then [0x5C, 0x22]
      else if u = 0x5C then [0x5C, 0x5C]
      else if u < 0x20 \<or> is_high_surrogate u \<or> is_low_surrogate u then unicode_escape u
      else [u])"

fun quote_units :: "jsstring \<Rightarrow> jsstring" where
  "quote_units [] = []"
| "quote_units [u] = quote_unit u"
| "quote_units (u # v # rest) =
     (if is_high_surrogate u \<and> is_low_surrogate v then u # v # quote_units rest
      else quote_unit u @ quote_units (v # rest))"

definition quoteJSONString :: "jsstring \<Rightarrow> jsstring" where
  "quoteJSONString s = [0x22] @ quote_units s @ [0x22]"

definition stringify_value :: "json \<Rightarrow> jsstring" where
  "stringify_value v =
     (case v of JString s \<Rightarrow> quoteJSONString s
      | JBool b \<Rightarrow> if b then ascii ''true'' else ascii ''false'')"

definition stringify_member :: "string \<times> json \<Rightarrow> jsstring" where
  "stringify_member m = ascii ''  '' @ quoteJSONString (ascii (fst m)) @ ascii '': '' @ stringify_value (snd m)"

fun join_members :: "jsstring list \<Rightarrow> jsstring" where
  "join_members [] = []"
| "join_members [m] = m"
| "join_members (m # ms) = m @ ascii '','' @ nl @ join_members ms"

definition stringify :: "(string \<times> json) list \<Rightarrow> jsstring" where
  "stringify members =
     (if members = [] then ascii ''{}''
      else ascii ''{'' @ nl @ join_members (map stringify_member members) @ nl @ ascii ''}'')"

definition stringifySidebarItem :: "SidebarItem \<Rightarrow> jsstring" where
  "stringifySidebarItem s =
     stringify [(''id'', JString (sb_id s)), (''label'', JString (sb_label s)),
                (''active'', JBool (sb_active s))]"

definition stringifyPage :: "Page \<Rightarrow> jsstring" where
  "stringifyPage p =
     stringify [(''id'', JString (page_id p)), (''title'', JString (page_title p)),
                (''content'', JString (page_content p))]"

section \<open>The store\<close>

text \<open>
  The hosted database is an external collaborator. Its table holds one row (key 1) whose
  JSON column \<open>config\<close> is the document or null. A call of the client library either
  answers \<open>{data, error}\<close> with \<open>error\<close> null, answers with an error object carrying a
  message, or (what the handlers' \<open>try\<close>/\<open>catch\<close> is there for) raises an \<open>Error\<close> with
  a message. Which of the three happens is given with the world; only an update that
  succeeds replaces the stored document. \<open>updates\<close> logs every document sent in an update
  call, so that "no write is issued" can be said.
\<close>

datatype outcome = Succeeds | Errors jsstring | Throws jsstring

record World =
  stored :: "State option"
  read_outcome :: outcome
  write_outcome :: outcome
  updates :: "State list"

datatype 'a db_result = DbError jsstring | DbData 'a

text \<open>\<open>await supabase.from("configs").select("config").single()\<close>; \<open>Inl\<close> is a raised error.\<close>

definition select_config :: "World \<Rightarrow> jsstring + (State option) db_result" where
  "select_config w =
     (case read_outcome w of
        Succeeds \<Rightarrow> Inr (DbData (stored w))
      | Errors msg \<Rightarrow> Inr (DbError msg)
      | Throws msg \<Rightarrow> Inl msg)"

text \<open>\<open>await supabase.from("configs").update({config: c}).eq("id", 1)\<close>, answering \<open>updateError\<close>.\<close>

definition update_config :: "State \<Rightarrow> World \<Rightarrow> (jsstring + jsstring option) \<times> World" where
  "update_config c w =
     (case write_outcome w of
        Succeeds \<Rightarrow> (Inr None, w\<lparr>stored := Some c, updates := updates w @ [c]\<rparr>)
      | Errors msg \<Rightarrow> (Inr (Some msg), w\<lparr>updates := updates w @ [c]\<rparr>)
      | Throws msg \<Rightarrow> (Inl msg, w\<lparr>updates := updates w @ [c]\<rparr>))"

text \<open>
  \<open>try { body } catch (error) { return text(prefix + error.message) }\<close>: the body either
  returns a response or raises.
\<close>

definition try_catch :: "jsstring \<Rightarrow> (jsstring + ToolResponse) \<times> World \<Rightarrow> ToolResponse \<times> World" where
  "try_catch prefix r =
     (case r of
        (Inl msg, w) \<Rightarrow> (text_response (prefix @ msg), w)
      | (Inr resp, w) \<Rightarrow> (resp, w))"

section \<open>The stdio server: \<open>addItem\<close>, \<open>deleteItem\<close>, \<open>updateItem\<close>\<close>

text \<open>
  The server over stdio with all three tools; the file with the single tool \<open>addItem\<close>
  has the same \<open>addItem\<close>, statement for statement.
\<close>

definition addItem_stdio_body :: "Item \<Rightarrow> World \<Rightarrow> (jsstring + ToolResponse) \<times> World" where
  "addItem_stdio_body item w =
     (case select_config w of
        Inl thrown \<Rightarrow> (Inl thrown, w)
      | Inr (DbError msg) \<Rightarrow>
          (Inr (text_response (ascii ''Failed to load config from database: '' @ msg)), w)
      | Inr (DbData config) \<Rightarrow>
          (let currentConfig = nullish config emptyState;
               sidebarItem = \<lparr>sb_id = item_id item,
                              sb_label = nullish (item_label item) (ascii ''Item '' @ item_id item),
                              sb_active = nullish (item_active item) False\<rparr>;
               pageItem = \<lparr>page_id = item_id item,
                           page_title = nullish (item_title item) (ascii ''Page '' @ item_id item),
                           page_content = nullish (item_content item) []\<rparr>
           in if some (\<lambda>existing. sb_id existing = item_id item) (sidebar currentConfig)
              then (Inr (text_response (ascii ''Failed to add item: Sidebar item with ID '' @
                      item_id item @ ascii '' already exists'')), w)
              else if some (\<lambda>existing. page_id existing = item_id item) (pages currentConfig)
              then (Inr (text_response (ascii ''Failed to add item: Page with ID '' @
                      item_id item @ ascii '' already exists'')), w)
              else
                (case update_config
                        (currentConfig\<lparr>sidebar := sidebar currentConfig @ [sidebarItem],
                                       pages := pages currentConfig @ [pageItem]\<rparr>) w of
                   (Inl thrown, w') \<Rightarrow> (Inl thrown, w')
                 | (Inr (Some msg), w') \<Rightarrow>
                     (Inr (text_response (ascii ''Failed to update config in database: '' @ msg)), w')
                 | (Inr None, w') \<Rightarrow>
                     (Inr (text_response
                        (ascii ''Successfully added item with ID '' @ item_id item @
                         ascii '' to both sidebar and pages and updated database:'' @ nl @
                         ascii ''Sidebar Item:'' @ nl @ stringifySidebarItem sidebarItem @ nl @
                         ascii ''Page:'' @ nl @ stringifyPage pageItem)), w'))))"

definition addItem_stdio :: "Item \<Rightarrow> World \<Rightarrow> ToolResponse \<times> World" where
  "addItem_stdio item w = try_catch (ascii ''Failed to add item: '') (addItem_stdio_body item w)"

text \<open>
  \<open>deleteItem\<close> is the same in the stdio server and in the HTTP server
  (\<open>toolHandlers["deleteItem"]\<close>). The entry read at a found index is in range.
\<close>

definition deleteItem_body :: "jsstring \<Rightarrow> World \<Rightarrow> (jsstring + ToolResponse) \<times> World" where
  "deleteItem_body ident w =
     (case select_config w of
        Inl thrown \<Rightarrow> (Inl thrown, w)
      | Inr (DbError msg) \<Rightarrow>
          (Inr (text_response (ascii ''Failed to load config from database: '' @ msg)), w)
      | Inr (DbData config) \<Rightarrow>
          (let currentConfig = nullish config emptyState;
               sidebarIndex = findIndex (\<lambda>item. sb_id item = ident) (sidebar currentConfig);
               pageIndex = findIndex (\<lambda>item. page_id item = ident) (pages currentConfig)
           in if sidebarIndex = None \<and> pageIndex = None
              then (Inr (text_response (ascii ''Item with ID '' @ ident @
                      ascii '' not found in either sidebar or pages'')), w)
              else
                (let deletedSidebarItem = map_option (\<lambda>i. sidebar currentConfig ! i) sidebarIndex;
                     deletedPageItem = map_option (\<lambda>i. pages currentConfig ! i) pageIndex;
                     newSidebar = (case sidebarIndex of None \<Rightarrow> sidebar currentConfig
                                   | Some i \<Rightarrow> splice1 i (sidebar currentConfig));
                     newPages = (case pageIndex of None \<Rightarrow> pages currentConfig
                                 | Some i \<Rightarrow> splice1 i (pages currentConfig))
                 in case update_config (currentConfig\<lparr>sidebar := newSidebar, pages := newPages\<rparr>) w of
                      (Inl thrown, w') \<Rightarrow> (Inl thrown, w')
                    | (Inr (Some msg), w') \<Rightarrow>
                        (Inr (text_response (ascii ''Failed to update config in database: '' @ msg)), w')
                    | (Inr None, w') \<Rightarrow>
                        (Inr (text_response
                           (ascii ''Successfully deleted item with ID '' @ ident @
                            (case deletedSidebarItem of None \<Rightarrow> []
                             | Some s \<Rightarrow> nl @ ascii ''Deleted Sidebar Item:'' @ nl @ stringifySidebarItem s) @
                            (case deletedPageItem of None \<Rightarrow> []
                             | Some p \<Rightarrow> nl @ ascii ''Deleted Page:'' @ nl @ stringifyPage p))), w'))))"

definition deleteItem :: "jsstring \<Rightarrow> World \<Rightarrow> ToolResponse \<times> World" where
  "deleteItem ident w = try_catch (ascii ''Failed to delete item: '') (deleteItem_body ident w)"

text \<open>
  The text both \<open>updateItem\<close> handlers build after a successful write, from the entries
  before and after.
\<close>

definition update_text ::
  "jsstring \<Rightarrow> (SidebarItem \<times> SidebarItem) option \<Rightarrow> (Page \<times> Page) option \<Rightarrow> jsstring" where
  "update_text oldId sb pg =
     ascii ''Successfully updated item with ID '' @ oldId @
     (case sb of None \<Rightarrow> []
      | Some (original, updated) \<Rightarrow>
          nl @ ascii ''Updated Sidebar Item:'' @ nl @ ascii ''From: '' @ stringifySidebarItem original @
          nl @ ascii ''To: '' @ stringifySidebarItem updated) @
     (case pg of None \<Rightarrow> []
      | Some (original, updated) \<Rightarrow>
          nl @ ascii ''Updated Page:'' @ nl @ ascii ''From: '' @ stringifyPage original @
          nl @ ascii ''To: '' @ stringifyPage updated)"

text \<open>The guard \<open>newItem.id && newItem.id !== oldId\<close> and the scan under it.\<close>

definition new_id_collides :: "jsstring \<Rightarrow> NewItem \<Rightarrow> State \<Rightarrow> bool" where
  "new_id_collides oldId newItem currentConfig =
     (truthy (new_id newItem) \<and> new_id newItem \<noteq> Some oldId \<and>
      (some (\<lambda>item. Some (sb_id item) = new_id newItem) (sidebar currentConfig) \<or>
       some (\<lambda>item. Some (page_id item) = new_id newItem) (pages currentConfig)))"

definition updateItem_stdio_body ::
  "jsstring \<Rightarrow> NewItem \<Rightarrow> World \<Rightarrow> (jsstring + ToolResponse) \<times> World" where
  "updateItem_stdio_body oldId newItem w =
     (case select_config w of
        Inl thrown \<Rightarrow> (Inl thrown, w)
      | Inr (DbError msg) \<Rightarrow>
          (Inr (text_response (ascii ''Failed to load config from database: '' @ msg)), w)
      | Inr (DbData config) \<Rightarrow>
          (let currentConfig = nullish config emptyState;
               sidebarIndex = findIndex (\<lambda>item. sb_id item = oldId) (sidebar currentConfig);
               pageIndex = findIndex (\<lambda>item. page_id item = oldId) (pages currentConfig)
           in if sidebarIndex = None \<and> pageIndex = None
              then (Inr (text_response (ascii ''Item with ID '' @ oldId @
                      ascii '' not found in either sidebar or pages'')), w)
              else if new_id_collides oldId newItem currentConfig
              then (Inr (text_response (ascii ''Failed to update item: New ID '' @
                      nullish (new_id newItem) [] @ ascii '' already exists'')), w)
              else
                (let newSidebarItem = (\<lambda>old.
                       \<lparr>sb_id = nullish (new_id newItem) (sb_id old),
                        sb_label = nullish (new_label newItem) (sb_label old),
                        sb_active = nullish (new_active newItem) (sb_active old)\<rparr>);
                     newPage = (\<lambda>old.
                       \<lparr>page_id = nullish (new_id newItem) (page_id old),
                        page_title = nullish (new_title newItem) (page_title old),
                        page_content = nullish (new_content newItem) (page_content old)\<rparr>);
                     sidebarChange = map_option (\<lambda>i. (sidebar currentConfig ! i,
                                        newSidebarItem (sidebar currentConfig ! i))) sidebarIndex;
                     pageChange = map_option (\<lambda>i. (pages currentConfig ! i,
                                        newPage (pages currentConfig ! i))) pageIndex;
                     newSidebar = (case sidebarIndex of None \<Rightarrow> sidebar currentConfig
                                   | Some i \<Rightarrow> (sidebar currentConfig)
                                       [i := newSidebarItem (sidebar currentConfig ! i)]);
                     newPages = (case pageIndex of None \<Rightarrow> pages currentConfig
                                 | Some i \<Rightarrow> (pages currentConfig)
                                     [i := newPage (pages currentConfig ! i)])
                 in case update_config (currentConfig\<lparr>sidebar := newSidebar, pages := newPages\<rparr>) w of
                      (Inl thrown, w') \<Rightarrow> (Inl thrown, w')
                    | (Inr (Some msg), w') \<Rightarrow>
                        (Inr (text_response (ascii ''Failed to update config in database: '' @ msg)), w')
                    | (Inr None, w') \<Rightarrow>
                        (Inr (text_response (update_text oldId sidebarChange pageChange)), w'))))"

definition updateItem_stdio :: "jsstring \<Rightarrow> NewItem \<Rightarrow> World \<Rightarrow> ToolResponse \<times> World" where
  "updateItem_stdio oldId newItem w =
     try_catch (ascii ''Failed to update item: '') (updateItem_stdio_body oldId newItem w)"

section \<open>The HTTP server: \<open>toolHandlers\<close> and \<open>GET /api/config\<close>\<close>

definition addItem_http_body :: "runtime \<Rightarrow> Item \<Rightarrow> World \<Rightarrow> (jsstring + ToolResponse) \<times> World" where
  "addItem_http_body rt item w =
     (case select_config w of
        Inl thrown \<Rightarrow> (Inl thrown, w)
      | Inr (DbError msg) \<Rightarrow>
          (Inr (text_response (ascii ''Failed to load config from database: '' @ msg)), w)
      | Inr (DbData config) \<Rightarrow>
          (let currentConfig = nullish config emptyState;
               sidebarItem = \<lparr>sb_id = toLowerCase rt (item_id item),
                              sb_label = nullish (item_label item) (capitalizeFirstLetter rt (item_id item)),
                              sb_active = nullish (item_active item) False\<rparr>;
               pageItem = \<lparr>page_id = toLowerCase rt (item_id item),
                           page_title = nullish (item_title item) (ascii ''Page '' @ item_id item),
                           page_content = nullish (item_content item) []\<rparr>
           in if some (\<lambda>existing. sb_id existing = item_id item) (sidebar currentConfig)
              then (Inr (text_response (ascii ''Failed to add item: Sidebar item with ID '' @
                      item_id item @ ascii '' already exists'')), w)
              else if some (\<lambda>existing. page_id existing = item_id item) (pages currentConfig)
              then (Inr (text_response (ascii ''Failed to add item: Page with ID '' @
                      item_id item @ ascii '' already exists'')), w)
              else
                (case update_config
                        (currentConfig\<lparr>sidebar := sidebar currentConfig @ [sidebarItem],
                                       pages := pages currentConfig @ [pageItem]\<rparr>) w of
                   (Inl thrown, w') \<Rightarrow> (Inl thrown, w')
                 | (Inr (Some msg), w') \<Rightarrow>
                     (Inr (text_response (ascii ''Failed to update config in database: '' @ msg)), w')
                 | (Inr None, w') \<Rightarrow>
                     (Inr (text_response
                        (ascii ''Successfully added item with ID '' @ item_id item @
                         ascii '' to both sidebar and pages and updated database:'' @ nl @
                         ascii ''Sidebar Item:'' @ nl @ stringifySidebarItem sidebarItem @ nl @
                         ascii ''Page:'' @ nl @ stringifyPage pageItem)), w'))))"

definition addItem_http :: "runtime \<Rightarrow> Item \<Rightarrow> World \<Rightarrow> ToolResponse \<times> World" where
  "addItem_http rt item w =
     try_catch (ascii ''Failed to add item: '') (addItem_http_body rt item w)"

text \<open>
  \<open>toolHandlers["updateItem"]\<close> builds the new entries from \<open>newItem\<close> and templates:
  \<^verbatim>\<open>
  id: newItem.id?.toLowerCase() || oldId,
  label: newItem.label || capitalizeFirstLetter(newItem.id || oldId),
  active: newItem.active ?? false,
  title: newItem.title || `Page ${newItem.id || oldId}`,
  content: newItem.content || `Welcome to the page ${newItem.id || oldId}`,
  \<close>
\<close>

definition http_sidebar_entry :: "runtime \<Rightarrow> jsstring \<Rightarrow> NewItem \<Rightarrow> SidebarItem" where
  "http_sidebar_entry rt oldId newItem =
     \<lparr>sb_id = or_else (map_option (toLowerCase rt) (new_id newItem)) oldId,
      sb_label = or_else (new_label newItem)
                   (capitalizeFirstLetter rt (or_else (new_id newItem) oldId)),
      sb_active = nullish (new_active newItem) False\<rparr>"

definition http_page_entry :: "runtime \<Rightarrow> jsstring \<Rightarrow> NewItem \<Rightarrow> Page" where
  "http_page_entry rt oldId newItem =
     \<lparr>page_id = or_else (map_option (toLowerCase rt) (new_id newItem)) oldId,
      page_title = or_else (new_title newItem) (ascii ''Page '' @ or_else (new_id newItem) oldId),
      page_content = or_else (new_content newItem)
                       (ascii ''Welcome to the page '' @ or_else (new_id newItem) oldId)\<rparr>"

definition updateItem_http_body ::
  "runtime \<Rightarrow> jsstring \<Rightarrow> NewItem \<Rightarrow> World \<Rightarrow> (jsstring + ToolResponse) \<times> World" where
  "updateItem_http_body rt oldId newItem w =
     (case select_config w of
        Inl thrown \<Rightarrow> (Inl thrown, w)
      | Inr (DbError msg) \<Rightarrow>
          (Inr (text_response (ascii ''Failed to load config from database: '' @ msg)), w)
      | Inr (DbData config) \<Rightarrow>
          (let currentConfig = nullish config emptyState;
               sidebarIndex = findIndex (\<lambda>item. sb_id item = oldId) (sidebar currentConfig);
               pageIndex = findIndex (\<lambda>item. page_id item = oldId) (pages currentConfig)
           in if sidebarIndex = None \<and> pageIndex = None
              then (Inr (text_response (ascii ''Item with ID '' @ oldId @
                      ascii '' not found in either sidebar or pages'')), w)
              else if new_id_collides oldId newItem currentConfig
              then (Inr (text_response (ascii ''Failed to update item: New ID '' @
                      nullish (new_id newItem) [] @ ascii '' already exists'')), w)
              else
                (let sidebarChange = map_option (\<lambda>i. (sidebar currentConfig ! i,
                                        http_sidebar_entry rt oldId newItem)) sidebarIndex;
                     pageChange = map_option (\<lambda>i. (pages currentConfig ! i,
                                        http_page_entry rt oldId newItem)) pageIndex;
                     newSidebar = (case sidebarIndex of None \<Rightarrow> sidebar currentConfig
                                   | Some i \<Rightarrow> (sidebar currentConfig)
                                       [i := http_sidebar_entry rt oldId newItem]);
                     newPages = (case pageIndex of None \<Rightarrow> pages currentConfig
                                 | Some i \<Rightarrow> (pages currentConfig)
                                     [i := http_page_entry rt oldId newItem])
                 in case update_config (currentConfig\<lparr>sidebar := newSidebar, pages := newPages\<rparr>) w of
                      (Inl thrown, w') \<Rightarrow> (Inl thrown, w')
                    | (Inr (Some msg), w') \<Rightarrow>
                        (Inr (text_response (ascii ''Failed to update config in database: '' @ msg)), w')
                    | (Inr None, w') \<Rightarrow>
                        (Inr (text_response (update_text oldId sidebarChange pageChange)), w'))))"

definition updateItem_http :: "runtime \<Rightarrow> jsstring \<Rightarrow> NewItem \<Rightarrow> World \<Rightarrow> ToolResponse \<times> World" where
  "updateItem_http rt oldId newItem w =
     try_catch (ascii ''Failed to update item: '') (updateItem_http_body rt oldId newItem w)"

text \<open>
  \<open>GET /api/config\<close> answers the document itself with status 200 (\<open>res.json\<close>), or a
  text content with status 500.
\<close>

datatype http_body = ConfigBody State | ContentBody ToolResponse

record http_response =
  status :: nat
  body :: http_body

definition getConfig :: "World \<Rightarrow> http_response" where
  "getConfig w =
     (case select_config w of
        Inl thrown \<Rightarrow>
          \<lparr>status = 500, body = ContentBody (text_response (ascii ''Error fetching config: '' @ thrown))\<rparr>
      | Inr (DbError msg) \<Rightarrow>
          \<lparr>status = 500,
           body = ContentBody (text_response (ascii ''Failed to load config from database: '' @ msg))\<rparr>
      | Inr (DbData config) \<Rightarrow> \<lparr>status = 200, body = ConfigBody (nullish config emptyState)\<rparr>)"

section \<open>The stateless server: \<open>addItem\<close> on a document passed in\<close>

text \<open>
  The fourth server keeps no store: the caller passes the document and receives
  \<open>updatedConfig\<close> beside the content. Its entries have no \<open>content\<close> and no \<open>active\<close>.
  The arguments are typed, so the schema's \<open>parse\<close> returns them as they are and nothing
  in the body raises.
\<close>

record PageS =
  pageS_id :: jsstring
  pageS_title :: jsstring

record SidebarItemS =
  sbS_id :: jsstring
  sbS_label :: jsstring

record StateS =
  pagesS :: "PageS list"
  sidebarS :: "SidebarItemS list"

record ItemS =
  itemS_id :: jsstring
  itemS_label :: "jsstring option"
  itemS_title :: "jsstring option"

definition addItem_stateless :: "runtime \<Rightarrow> StateS \<Rightarrow> ItemS \<Rightarrow> ToolResponse \<times> StateS option" where
  "addItem_stateless rt currentConfig item =
     (let sidebarItem = \<lparr>sbS_id = toLowerCase rt (itemS_id item),
                         sbS_label = nullish (itemS_label item) (capitalizeFirstLetter rt (itemS_id item))\<rparr>;
          pageItem = \<lparr>pageS_id = toLowerCase rt (itemS_id item),
                      pageS_title = nullish (itemS_title item) (ascii ''Page '' @ itemS_id item)\<rparr>
      in if some (\<lambda>existing. sbS_id existing = itemS_id item) (sidebarS currentConfig)
         then (text_response (ascii ''Failed to add item: Sidebar item with ID '' @
                 itemS_id item @ ascii '' already exists''), None)
         else if some (\<lambda>existing. pageS_id existing = itemS_id item) (pagesS currentConfig)
         then (text_response (ascii ''Failed to add item: Page with ID '' @
                 itemS_id item @ ascii '' already exists''), None)
         else
           (text_response
              (ascii ''Successfully added item with ID '' @ itemS_id item @
               ascii '' to both sidebar and pages:'' @ nl @
               ascii ''Sidebar Item:'' @ nl @
               stringify [(''id'', JString (sbS_id sidebarItem)), (''label'', JString (sbS_label sidebarItem))] @ nl @
               ascii ''Page:'' @ nl @
               stringify [(''id'', JString (pageS_id pageItem)), (''title'', JString (pageS_title pageItem))]),
            Some (currentConfig\<lparr>sidebarS := sidebarS currentConfig @ [sidebarItem],
                                pagesS := pagesS currentConfig @ [pageItem]\<rparr>)))"

section \<open>Predicates of the claims\<close>

text \<open>No two pages share an id and no two sidebar entries share an id.\<close>

definition unique_ids :: "State \<Rightarrow> bool" where
  "unique_ids c = (distinct (map page_id (pages c)) \<and> distinct (map sb_id (sidebar c)))"

definition unique_idsS :: "StateS \<Rightarrow> bool" where
  "unique_idsS c = (distinct (map pageS_id (pagesS c)) \<and> distinct (map sbS_id (sidebarS c)))"

text \<open>The document a read finds: the stored one, or the empty default.\<close>

definition current :: "World \<Rightarrow> State" where
  "current w = nullish (stored w) emptyState"

text \<open>A world whose store answers both calls.\<close>

definition healthy :: "State option \<Rightarrow> World" where
  "healthy c = \<lparr>stored = c, read_outcome = Succeeds, write_outcome = Succeeds, updates = []\<rparr>"

text \<open>
  The claims speak of the first entry with an id being removed or rewritten. These two
  functions say so directly; the handlers reach the same lists through \<open>findIndex\<close>,
  \<open>splice\<close> and assignment at the index (lemmas \<open>splice_findIndex\<close>, \<open>update_findIndex\<close>).
\<close>

fun remove_first :: "('a \<Rightarrow> bool) \<Rightarrow> 'a list \<Rightarrow> 'a list" where
  "remove_first P [] = []"
| "remove_first P (x # xs) = (if P x then xs else x # remove_first P xs)"

fun update_first :: "('a \<Rightarrow> bool) \<Rightarrow> ('a \<Rightarrow> 'a) \<Rightarrow> 'a list \<Rightarrow> 'a list" where
  "update_first P f [] = []"
| "update_first P f (x # xs) = (if P x then f x # xs else x # update_first P f xs)"

text \<open>
  The validation failures, in the specification's words: a duplicate id on add, an absent
  id on delete and on update, a colliding id on rename. Each function gives the text the
  caller is owed, or \<open>None\<close> for a call that passes validation.
\<close>

definition addItem_rejection :: "jsstring \<Rightarrow> State \<Rightarrow> jsstring option" where
  "addItem_rejection i c =
     (if i \<in> sb_id ` set (sidebar c)
      then Some (ascii ''Failed to add item: Sidebar item with ID '' @ i @ ascii '' already exists'')
      else if i \<in> page_id ` set (pages c)
      then Some (ascii ''Failed to add item: Page with ID '' @ i @ ascii '' already exists'')
      else None)"

definition deleteItem_rejection :: "jsstring \<Rightarrow> State \<Rightarrow> jsstring option" where
  "deleteItem_rejection i c =
     (if i \<in> sb_id ` set (sidebar c) \<or> i \<in> page_id ` set (pages c) then None
      else Some (ascii ''Item with ID '' @ i @ ascii '' not found in either sidebar or pages''))"

definition updateItem_rejection :: "jsstring \<Rightarrow> NewItem \<Rightarrow> State \<Rightarrow> jsstring option" where
  "updateItem_rejection oldId newItem c =
     (if oldId \<in> sb_id ` set (sidebar c) \<or> oldId \<in> page_id ` set (pages c)
      then (case new_id newItem of
              None \<Rightarrow> None
            | Some n \<Rightarrow>
                if n \<noteq> [] \<and> n \<noteq> oldId \<and>
                   (n \<in> sb_id ` set (sidebar c) \<or> n \<in> page_id ` set (pages c))
                then Some (ascii ''Failed to update item: New ID '' @ n @ ascii '' already exists'')
                else None)
      else Some (ascii ''Item with ID '' @ oldId @ ascii '' not found in either sidebar or pages''))"

text \<open>
  What a handler owes its caller on every path. The response always has the one shape.
  After a read error or a raised read: the message of that failure, and the world as it
  was. After a read that succeeds, on a call that fails validation: the text of that
  failure, and the world as it was. Otherwise exactly one update is issued; if it errors
  or raises, the text is the message of that failure and the stored document is as it
  was; if it succeeds, the text begins with the handler's success line and the stored
  document is the one sent.
\<close>

definition answers_every_outcome ::
  "jsstring \<Rightarrow> jsstring option \<Rightarrow> jsstring \<Rightarrow> World \<Rightarrow> ToolResponse \<times> World \<Rightarrow> bool" where
  "answers_every_outcome catch_prefix rejection success_prefix w r =
     (fst r = text_response (response_text (fst r)) \<and>
      (case read_outcome w of
         Errors msg \<Rightarrow> r = (text_response (ascii ''Failed to load config from database: '' @ msg), w)
       | Throws msg \<Rightarrow> r = (text_response (catch_prefix @ msg), w)
       | Succeeds \<Rightarrow>
           (case rejection of
              Some t \<Rightarrow> r = (text_response t, w)
            | None \<Rightarrow>
                updates (snd r) = updates w @ [last (updates (snd r))] \<and>
                (case write_outcome w of
                   Errors msg \<Rightarrow>
                     fst r = text_response (ascii ''Failed to update config in database: '' @ msg) \<and>
                     stored (snd r) = stored w
                 | Throws msg \<Rightarrow>
                     fst r = text_response (catch_prefix @ msg) \<and> stored (snd r) = stored w
                 | Succeeds \<Rightarrow>
                     take (length success_prefix) (response_text (fst r)) = success_prefix \<and>
                     stored (snd r) = Some (last (updates (snd r)))))))"

section \<open>Example documents and parameters\<close>

text \<open>An item with nothing but its id, and an update that supplies nothing.\<close>

definition item_only :: "jsstring \<Rightarrow> Item" where
  "item_only i =
     \<lparr>item_id = i, item_label = None, item_title = None, item_content = None, item_active = None\<rparr>"

definition no_change :: NewItem where
  "no_change =
     \<lparr>new_id = None, new_label = None, new_title = None, new_content = None, new_active = None\<rparr>"

text \<open>The example of the specification: \<open>addItem({id: "home", title: "Home"})\<close> and its document.\<close>

definition home_item :: Item where
  "home_item = (item_only (ascii ''home''))\<lparr>item_title := Some (ascii ''Home'')\<rparr>"

definition home_doc :: State where
  "home_doc =
     \<lparr>pages = [\<lparr>page_id = ascii ''home'', page_title = ascii ''Home'', page_content = []\<rparr>],
      sidebar = [\<lparr>sb_id = ascii ''home'', sb_label = ascii ''Home'', sb_active = False\<rparr>]\<rparr>"

text \<open>A page with content of its own and an active sidebar entry.\<close>

definition hello_doc :: State where
  "hello_doc =
     \<lparr>pages = [\<lparr>page_id = ascii ''home'', page_title = ascii ''Home'', page_content = ascii ''Hello''\<rparr>],
      sidebar = [\<lparr>sb_id = ascii ''home'', sb_label = ascii ''Start'', sb_active = True\<rparr>]\<rparr>"

text \<open>Two items, one of them with the empty id (which \<open>addItem\<close> accepts).\<close>

definition empty_id_doc :: State where
  "empty_id_doc =
     \<lparr>pages = [\<lparr>page_id = ascii ''a'', page_title = ascii ''Alpha'', page_content = ascii ''One''\<rparr>,
               \<lparr>page_id = [], page_title = ascii ''Blank'', page_content = ascii ''Two''\<rparr>],
      sidebar = [\<lparr>sb_id = ascii ''a'', sb_label = ascii ''Alpha'', sb_active = True\<rparr>,
                 \<lparr>sb_id = [], sb_label = ascii ''Blank'', sb_active = False\<rparr>]\<rparr>"

text \<open>
  Documents off the invariant: \<open>x\<close> twice in both sequences, and documents whose two
  sequences do not run in lock-step.
\<close>

definition twice_doc :: State where
  "twice_doc =
     \<lparr>pages = [\<lparr>page_id = ascii ''a'', page_title = ascii ''A'', page_content = []\<rparr>,
               \<lparr>page_id = ascii ''x'', page_title = ascii ''first'', page_content = []\<rparr>,
               \<lparr>page_id = ascii ''x'', page_title = ascii ''second'', page_content = []\<rparr>],
      sidebar = [\<lparr>sb_id = ascii ''x'', sb_label = ascii ''first'', sb_active = False\<rparr>,
                 \<lparr>sb_id = ascii ''b'', sb_label = ascii ''B'', sb_active = False\<rparr>,
                 \<lparr>sb_id = ascii ''x'', sb_label = ascii ''second'', sb_active = True\<rparr>]\<rparr>"

definition lopsided_doc :: State where
  "lopsided_doc =
     \<lparr>pages = [\<lparr>page_id = ascii ''p'', page_title = ascii ''P'', page_content = []\<rparr>],
      sidebar = [\<lparr>sb_id = ascii ''s'', sb_label = ascii ''S'', sb_active = False\<rparr>,
                 \<lparr>sb_id = ascii ''t'', sb_label = ascii ''T'', sb_active = False\<rparr>]\<rparr>"

text \<open>Worlds whose store fails: on the write, on the read, and by raising on the read.\<close>

definition write_fails :: World where
  "write_fails = \<lparr>stored = Some home_doc, read_outcome = Succeeds,
                  write_outcome = Errors (ascii ''disk full''), updates = []\<rparr>"

definition read_fails :: World where
  "read_fails = \<lparr>stored = Some home_doc, read_outcome = Errors (ascii ''timeout''),
                 write_outcome = Succeeds, updates = []\<rparr>"

definition read_throws :: World where
  "read_throws = \<lparr>stored = Some home_doc, read_outcome = Throws (ascii ''fetch failed''),
                  write_outcome = Succeeds, updates = []\<rparr>"

section \<open>Arrays: scanning, finding, removing, replacing\<close>

lemma some_iff: "some P xs \<longleftrightarrow> (\<exists>x\<in>set xs. P x)"
  by (simp add: some_def list_ex_iff)

lemma some_image: "some (\<lambda>x. f x = v) xs \<longleftrightarrow> v \<in> f ` set xs"
  by (auto simp: some_iff)

lemma findIndex_None_iff: "findIndex P xs = None \<longleftrightarrow> (\<forall>x\<in>set xs. \<not> P x)"
  by (induction xs) auto

lemma findIndex_None_image: "findIndex (\<lambda>x. f x = v) xs = None \<longleftrightarrow> v \<notin> f ` set xs"
  by (auto simp: findIndex_None_iff)

lemma splice1_0: "splice1 0 (x # xs) = xs"
  by (simp add: splice1_def)

lemma splice1_Cons: "splice1 (Suc i) (x # xs) = x # splice1 i xs"
  by (simp add: splice1_def)

lemma splice_findIndex:
  "(case findIndex P xs of None \<Rightarrow> xs | Some i \<Rightarrow> splice1 i xs) = remove_first P xs"
  by (induction xs) (auto simp: splice1_Cons splice1_0 split: option.splits)

lemma update_findIndex:
  "(case findIndex P xs of None \<Rightarrow> xs | Some i \<Rightarrow> xs[i := f (xs ! i)]) = update_first P f xs"
  by (induction xs) (auto split: option.splits)

lemma replace_findIndex:
  "(case findIndex P xs of None \<Rightarrow> xs | Some i \<Rightarrow> xs[i := v]) = update_first P (\<lambda>_. v) xs"
  by (induction xs) (auto split: option.splits)

lemma remove_first_at:
  "f e = v \<Longrightarrow> v \<notin> f ` set xs \<Longrightarrow> remove_first (\<lambda>x. f x = v) (xs @ e # ys) = xs @ ys"
  by (induction xs) auto

lemma remove_first_absent: "v \<notin> f ` set xs \<Longrightarrow> remove_first (\<lambda>x. f x = v) xs = xs"
  by (induction xs) auto

lemma update_first_at:
  "f e = v \<Longrightarrow> v \<notin> f ` set xs \<Longrightarrow>
     update_first (\<lambda>x. f x = v) g (xs @ e # ys) = xs @ g e # ys"
  by (induction xs) auto

lemma update_first_absent: "v \<notin> f ` set xs \<Longrightarrow> update_first (\<lambda>x. f x = v) g xs = xs"
  by (induction xs) auto

lemma update_first_cong: "(\<And>x. P x \<Longrightarrow> f x = g x) \<Longrightarrow> update_first P f xs = update_first P g xs"
  by (induction xs) auto

lemma set_remove_first: "set (remove_first P xs) \<subseteq> set xs"
  by (induction xs) auto

lemma remove_first_distinct: "distinct (map f xs) \<Longrightarrow> distinct (map f (remove_first P xs))"
proof (induction xs)
  case Nil
  then show ?case by simp
next
  case (Cons x xs)
  have "f x \<notin> f ` set (remove_first P xs)"
    using Cons.prems set_remove_first[of P xs] by auto
  with Cons show ?case by simp
qed

section \<open>What each handler does, branch by branch\<close>

lemma nullish_simps [simp]: "nullish None b = b" "nullish (Some v) b = v"
  by (simp_all add: nullish_def)

lemma or_else_simps [simp]:
  "or_else None b = b" "or_else (Some []) b = b" "v \<noteq> [] \<Longrightarrow> or_else (Some v) b = v"
  by (simp_all add: or_else_def)

lemma nullish_stored: "nullish (stored w) emptyState = current w"
  by (simp add: current_def)

lemma response_text_text_response [simp]: "response_text (text_response t) = t"
  by (simp add: response_text_def text_response_def)

lemmas store_defs = select_config_def update_config_def try_catch_def

lemmas handler_simps = store_defs Let_def nullish_stored some_image findIndex_None_image

lemma new_id_collides_iff:
  "new_id_collides oldId newItem c \<longleftrightarrow>
     (\<exists>n. new_id newItem = Some n \<and> n \<noteq> [] \<and> n \<noteq> oldId \<and>
          (n \<in> sb_id ` set (sidebar c) \<or> n \<in> page_id ` set (pages c)))"
  by (cases "new_id newItem") (auto simp: new_id_collides_def truthy_def some_iff)

lemma addItem_stdio_fresh:
  assumes "read_outcome w = Succeeds" and "write_outcome w = Succeeds"
    and "item_id item \<notin> sb_id ` set (sidebar (current w))"
    and "item_id item \<notin> page_id ` set (pages (current w))"
  shows "stored (snd (addItem_stdio item w)) =
     Some ((current w)
       \<lparr>sidebar := sidebar (current w) @
          [\<lparr>sb_id = item_id item,
            sb_label = nullish (item_label item) (ascii ''Item '' @ item_id item),
            sb_active = nullish (item_active item) False\<rparr>],
        pages := pages (current w) @
          [\<lparr>page_id = item_id item,
            page_title = nullish (item_title item) (ascii ''Page '' @ item_id item),
            page_content = nullish (item_content item) []\<rparr>]\<rparr>)"
  using assms by (simp add: addItem_stdio_def addItem_stdio_body_def handler_simps)

lemma addItem_http_fresh:
  assumes "read_outcome w = Succeeds" and "write_outcome w = Succeeds"
    and "item_id item \<notin> sb_id ` set (sidebar (current w))"
    and "item_id item \<notin> page_id ` set (pages (current w))"
  shows "stored (snd (addItem_http rt item w)) =
     Some ((current w)
       \<lparr>sidebar := sidebar (current w) @
          [\<lparr>sb_id = toLowerCase rt (item_id item),
            sb_label = nullish (item_label item) (capitalizeFirstLetter rt (item_id item)),
            sb_active = nullish (item_active item) False\<rparr>],
        pages := pages (current w) @
          [\<lparr>page_id = toLowerCase rt (item_id item),
            page_title = nullish (item_title item) (ascii ''Page '' @ item_id item),
            page_content = nullish (item_content item) []\<rparr>]\<rparr>)"
  using assms by (simp add: addItem_http_def addItem_http_body_def handler_simps)

lemma addItem_stdio_duplicate:
  assumes "read_outcome w = Succeeds"
    and "item_id item \<in> sb_id ` set (sidebar (current w)) \<or>
         item_id item \<in> page_id ` set (pages (current w))"
  shows "addItem_stdio item w =
     (text_response
        (ascii ''Failed to add item: '' @
         (if item_id item \<in> sb_id ` set (sidebar (current w))
          then ascii ''Sidebar item'' else ascii ''Page'') @
         ascii '' with ID '' @ item_id item @ ascii '' already exists''), w)"
  using assms(1) assms(2)
  by (elim disjE) (simp_all add: addItem_stdio_def addItem_stdio_body_def handler_simps ascii_def)

lemma addItem_http_duplicate:
  assumes "read_outcome w = Succeeds"
    and "item_id item \<in> sb_id ` set (sidebar (current w)) \<or>
         item_id item \<in> page_id ` set (pages (current w))"
  shows "addItem_http rt item w =
     (text_response
        (ascii ''Failed to add item: '' @
         (if item_id item \<in> sb_id ` set (sidebar (current w))
          then ascii ''Sidebar item'' else ascii ''Page'') @
         ascii '' with ID '' @ item_id item @ ascii '' already exists''), w)"
  using assms(1) assms(2)
  by (elim disjE) (simp_all add: addItem_http_def addItem_http_body_def handler_simps ascii_def)

lemma deleteItem_found:
  assumes "read_outcome w = Succeeds" and "write_outcome w = Succeeds"
    and "ident \<in> sb_id ` set (sidebar (current w)) \<or> ident \<in> page_id ` set (pages (current w))"
  shows "stored (snd (deleteItem ident w)) =
     Some ((current w)
       \<lparr>sidebar := remove_first (\<lambda>item. sb_id item = ident) (sidebar (current w)),
        pages := remove_first (\<lambda>item. page_id item = ident) (pages (current w))\<rparr>)"
  using assms(3)
proof
  assume "ident \<in> sb_id ` set (sidebar (current w))"
  then show ?thesis
    using assms(1,2)
    by (simp add: deleteItem_def deleteItem_body_def handler_simps splice_findIndex)
next
  assume "ident \<in> page_id ` set (pages (current w))"
  then show ?thesis
    using assms(1,2)
    by (simp add: deleteItem_def deleteItem_body_def handler_simps splice_findIndex)
qed

lemma deleteItem_absent:
  assumes "read_outcome w = Succeeds"
    and "ident \<notin> sb_id ` set (sidebar (current w))"
    and "ident \<notin> page_id ` set (pages (current w))"
  shows "deleteItem ident w =
     (text_response (ascii ''Item with ID '' @ ident @ ascii '' not found in either sidebar or pages''), w)"
  using assms by (simp add: deleteItem_def deleteItem_body_def handler_simps)

lemma updateItem_stdio_collision:
  assumes "read_outcome w = Succeeds"
    and "oldId \<in> sb_id ` set (sidebar (current w)) \<or> oldId \<in> page_id ` set (pages (current w))"
    and "new_id newItem = Some n" and "n \<noteq> []" and "n \<noteq> oldId"
    and "n \<in> sb_id ` set (sidebar (current w)) \<or> n \<in> page_id ` set (pages (current w))"
  shows "updateItem_stdio oldId newItem w =
     (text_response (ascii ''Failed to update item: New ID '' @ n @ ascii '' already exists''), w)"
proof -
  have "new_id_collides oldId newItem (current w)"
    using assms(3-6) by (simp add: new_id_collides_iff)
  then show ?thesis
    using assms(1,3) assms(2)
    by (elim disjE) (simp_all add: updateItem_stdio_def updateItem_stdio_body_def handler_simps)
qed

lemma updateItem_http_collision:
  assumes "read_outcome w = Succeeds"
    and "oldId \<in> sb_id ` set (sidebar (current w)) \<or> oldId \<in> page_id ` set (pages (current w))"
    and "new_id newItem = Some n" and "n \<noteq> []" and "n \<noteq> oldId"
    and "n \<in> sb_id ` set (sidebar (current w)) \<or> n \<in> page_id ` set (pages (current w))"
  shows "updateItem_http rt oldId newItem w =
     (text_response (ascii ''Failed to update item: New ID '' @ n @ ascii '' already exists''), w)"
proof -
  have "new_id_collides oldId newItem (current w)"
    using assms(3-6) by (simp add: new_id_collides_iff)
  then show ?thesis
    using assms(1,3) assms(2)
    by (elim disjE) (simp_all add: updateItem_http_def updateItem_http_body_def handler_simps)
qed

lemma updateItem_stdio_written:
  assumes "read_outcome w = Succeeds" and "write_outcome w = Succeeds"
    and "oldId \<in> sb_id ` set (sidebar (current w)) \<or> oldId \<in> page_id ` set (pages (current w))"
    and "\<not> new_id_collides oldId newItem (current w)"
  shows "stored (snd (updateItem_stdio oldId newItem w)) =
     Some ((current w)
       \<lparr>sidebar := update_first (\<lambda>item. sb_id item = oldId)
          (\<lambda>old. \<lparr>sb_id = nullish (new_id newItem) (sb_id old),
                  sb_label = nullish (new_label newItem) (sb_label old),
                  sb_active = nullish (new_active newItem) (sb_active old)\<rparr>) (sidebar (current w)),
        pages := update_first (\<lambda>item. page_id item = oldId)
          (\<lambda>old. \<lparr>page_id = nullish (new_id newItem) (page_id old),
                  page_title = nullish (new_title newItem) (page_title old),
                  page_content = nullish (new_content newItem) (page_content old)\<rparr>)
          (pages (current w))\<rparr>)"
  using assms(3)
proof
  assume "oldId \<in> sb_id ` set (sidebar (current w))"
  then show ?thesis
    using assms(1,2,4)
    by (simp add: updateItem_stdio_def updateItem_stdio_body_def handler_simps update_findIndex)
next
  assume "oldId \<in> page_id ` set (pages (current w))"
  then show ?thesis
    using assms(1,2,4)
    by (simp add: updateItem_stdio_def updateItem_stdio_body_def handler_simps update_findIndex)
qed

lemma updateItem_http_written:
  assumes "read_outcome w = Succeeds" and "write_outcome w = Succeeds"
    and "oldId \<in> sb_id ` set (sidebar (current w)) \<or> oldId \<in> page_id ` set (pages (current w))"
    and "\<not> new_id_collides oldId newItem (current w)"
  shows "stored (snd (updateItem_http rt oldId newItem w)) =
     Some ((current w)
       \<lparr>sidebar := update_first (\<lambda>item. sb_id item = oldId)
          (\<lambda>old. http_sidebar_entry rt oldId newItem) (sidebar (current w)),
        pages := update_first (\<lambda>item. page_id item = oldId)
          (\<lambda>old. http_page_entry rt oldId newItem) (pages (current w))\<rparr>)"
  using assms(3)
proof
  assume "oldId \<in> sb_id ` set (sidebar (current w))"
  then show ?thesis
    using assms(1,2,4)
    by (simp add: updateItem_http_def updateItem_http_body_def handler_simps replace_findIndex)
next
  assume "oldId \<in> page_id ` set (pages (current w))"
  then show ?thesis
    using assms(1,2,4)
    by (simp add: updateItem_http_def updateItem_http_body_def handler_simps replace_findIndex)
qed

lemma new_id_collides_case:
  "new_id_collides oldId newItem c =
     (case new_id newItem of None \<Rightarrow> False
      | Some n \<Rightarrow> n \<noteq> [] \<and> n \<noteq> oldId \<and>
          (n \<in> sb_id ` set (sidebar c) \<or> n \<in> page_id ` set (pages c)))"
  by (cases "new_id newItem") (auto simp: new_id_collides_def truthy_def some_iff)

lemmas answer_simps =
  answers_every_outcome_def store_defs Let_def nullish_stored some_image findIndex_None_image

lemma addItem_stdio_answers:
  "answers_every_outcome (ascii ''Failed to add item: '')
     (addItem_rejection (item_id item) (current w))
     (ascii ''Successfully added item with ID '' @ item_id item) w (addItem_stdio item w)"
  by (cases "read_outcome w"; cases "write_outcome w")
     (simp_all add: addItem_stdio_def addItem_stdio_body_def addItem_rejection_def answer_simps)

lemma addItem_http_answers:
  "answers_every_outcome (ascii ''Failed to add item: '')
     (addItem_rejection (item_id item) (current w))
     (ascii ''Successfully added item with ID '' @ item_id item) w (addItem_http rt item w)"
  by (cases "read_outcome w"; cases "write_outcome w")
     (simp_all add: addItem_http_def addItem_http_body_def addItem_rejection_def answer_simps)

lemma deleteItem_answers:
  "answers_every_outcome (ascii ''Failed to delete item: '')
     (deleteItem_rejection ident (current w))
     (ascii ''Successfully deleted item with ID '' @ ident) w (deleteItem ident w)"
  by (cases "read_outcome w"; cases "write_outcome w")
     (auto simp: deleteItem_def deleteItem_body_def deleteItem_rejection_def answer_simps)

lemma updateItem_stdio_answers:
  "answers_every_outcome (ascii ''Failed to update item: '')
     (updateItem_rejection oldId newItem (current w))
     (ascii ''Successfully updated item with ID '' @ oldId) w (updateItem_stdio oldId newItem w)"
  by (cases "read_outcome w"; cases "write_outcome w"; cases "new_id newItem")
     (auto simp: updateItem_stdio_def updateItem_stdio_body_def updateItem_rejection_def
        update_text_def new_id_collides_case answer_simps)

lemma updateItem_http_answers:
  "answers_every_outcome (ascii ''Failed to update item: '')
     (updateItem_rejection oldId newItem (current w))
     (ascii ''Successfully updated item with ID '' @ oldId) w (updateItem_http rt oldId newItem w)"
  by (cases "read_outcome w"; cases "write_outcome w"; cases "new_id newItem")
     (auto simp: updateItem_http_def updateItem_http_body_def updateItem_rejection_def
        update_text_def new_id_collides_case answer_simps)

text \<open>Unfolding for evaluation at concrete inputs.\<close>

lemmas example_defs =
  healthy_def current_def emptyState_def ascii_def nl_def
  latin1_def lower_unit_def upper_unit_def capitalizeFirstLetter_def

lemmas eval_defs =
  store_defs Let_def some_def truthy_def new_id_collides_def splice1_def
  http_sidebar_entry_def http_page_entry_def

section \<open>Adding an item (C3, C4)\<close>

text \<open>
  C3, as the code has it. When the read and the write succeed and the id of the item occurs
  in neither sequence, \<open>addItem\<close> stores the document with exactly one sidebar entry and one
  page appended, both under the same id (the id itself in the stdio server, its lower-casing
  in the HTTP server), so that each sequence is one longer. On the empty document,
  \<open>addItem({id: "home", title: "Home"})\<close> of the HTTP server stores exactly the document of
  the specification's example; the stdio server stores the same document except that the
  label is \<open>Item home\<close>.
\<close>

theorem addItem_fresh_appends:
  assumes "read_outcome w = Succeeds" and "write_outcome w = Succeeds"
    and "item_id item \<notin> sb_id ` set (sidebar (current w))"
    and "item_id item \<notin> page_id ` set (pages (current w))"
  shows
   "stored (snd (addItem_stdio item w)) =
      Some ((current w)
        \<lparr>sidebar := sidebar (current w) @
           [\<lparr>sb_id = item_id item,
             sb_label = (case item_label item of None \<Rightarrow> ascii ''Item '' @ item_id item | Some l \<Rightarrow> l),
             sb_active = (case item_active item of None \<Rightarrow> False | Some a \<Rightarrow> a)\<rparr>],
         pages := pages (current w) @
           [\<lparr>page_id = item_id item,
             page_title = (case item_title item of None \<Rightarrow> ascii ''Page '' @ item_id item | Some t \<Rightarrow> t),
             page_content = (case item_content item of None \<Rightarrow> [] | Some c \<Rightarrow> c)\<rparr>]\<rparr>) \<and>
    stored (snd (addItem_http rt item w)) =
      Some ((current w)
        \<lparr>sidebar := sidebar (current w) @
           [\<lparr>sb_id = toLowerCase rt (item_id item),
             sb_label = (case item_label item of None \<Rightarrow> capitalizeFirstLetter rt (item_id item)
                         | Some l \<Rightarrow> l),
             sb_active = (case item_active item of None \<Rightarrow> False | Some a \<Rightarrow> a)\<rparr>],
         pages := pages (current w) @
           [\<lparr>page_id = toLowerCase rt (item_id item),
             page_title = (case item_title item of None \<Rightarrow> ascii ''Page '' @ item_id item | Some t \<Rightarrow> t),
             page_content = (case item_content item of None \<Rightarrow> [] | Some c \<Rightarrow> c)\<rparr>]\<rparr>) \<and>
    stored (snd (addItem_http latin1 home_item (healthy (Some emptyState)))) = Some home_doc \<and>
    stored (snd (addItem_stdio home_item (healthy (Some emptyState)))) =
      Some (home_doc\<lparr>sidebar :=
              [\<lparr>sb_id = ascii ''home'', sb_label = ascii ''Item home'', sb_active = False\<rparr>]\<rparr>)"
proof -
  have "stored (snd (addItem_http latin1 home_item (healthy (Some emptyState)))) = Some home_doc"
    by (simp add: addItem_http_def addItem_http_body_def eval_defs example_defs home_item_def
        item_only_def home_doc_def)
  moreover have "stored (snd (addItem_stdio home_item (healthy (Some emptyState)))) =
      Some (home_doc\<lparr>sidebar :=
              [\<lparr>sb_id = ascii ''home'', sb_label = ascii ''Item home'', sb_active = False\<rparr>]\<rparr>)"
    by (simp add: addItem_stdio_def addItem_stdio_body_def eval_defs example_defs home_item_def
        item_only_def home_doc_def)
  ultimately show ?thesis
    using addItem_stdio_fresh[OF assms] addItem_http_fresh[OF assms, of rt]
    by (simp add: nullish_def)
qed

theorem addItem_fresh_appends_witness:
  "stored (snd (addItem_stdio (item_only (ascii ''about'')) (healthy (Some home_doc)))) =
     Some \<lparr>pages = [\<lparr>page_id = ascii ''home'', page_title = ascii ''Home'', page_content = []\<rparr>,
                    \<lparr>page_id = ascii ''about'', page_title = ascii ''Page about'', page_content = []\<rparr>],
           sidebar = [\<lparr>sb_id = ascii ''home'', sb_label = ascii ''Home'', sb_active = False\<rparr>,
                      \<lparr>sb_id = ascii ''about'', sb_label = ascii ''Item about'', sb_active = False\<rparr>]\<rparr> \<and>
   stored (snd (addItem_http latin1 (item_only (ascii ''about'')) (healthy (Some home_doc)))) =
     Some \<lparr>pages = [\<lparr>page_id = ascii ''home'', page_title = ascii ''Home'', page_content = []\<rparr>,
                    \<lparr>page_id = ascii ''about'', page_title = ascii ''Page about'', page_content = []\<rparr>],
           sidebar = [\<lparr>sb_id = ascii ''home'', sb_label = ascii ''Home'', sb_active = False\<rparr>,
                      \<lparr>sb_id = ascii ''about'', sb_label = ascii ''About'', sb_active = False\<rparr>]\<rparr>"
  using addItem_fresh_appends[of "healthy (Some home_doc)" "item_only (ascii ''about'')" latin1]
  by (simp add: example_defs item_only_def home_doc_def)

text \<open>
  The example as the specification states it fails on the stdio server, whose default label
  is the template \<open>Item {id}\<close>.
\<close>

theorem addItem_stdio_example_counterexample:
  "stored (snd (addItem_stdio home_item (healthy (Some emptyState)))) =
     Some \<lparr>pages = [\<lparr>page_id = ascii ''home'', page_title = ascii ''Home'', page_content = []\<rparr>],
           sidebar = [\<lparr>sb_id = ascii ''home'', sb_label = ascii ''Item home'', sb_active = False\<rparr>]\<rparr> \<and>
   stored (snd (addItem_stdio home_item (healthy (Some emptyState)))) \<noteq> Some home_doc"
  by (simp add: addItem_stdio_def addItem_stdio_body_def eval_defs example_defs home_item_def
      item_only_def home_doc_def)

text \<open>
  C4. When the read succeeds and the id of the item equals the id of an existing sidebar
  entry or page, \<open>addItem\<close> (stdio and HTTP server alike) returns the world as it was: the
  stored document is unchanged and no update is issued. Its message names the id:
  \<open>Sidebar item with ID ... already exists\<close> when a sidebar entry has it, otherwise
  \<open>Page with ID ... already exists\<close>.
\<close>

theorem addItem_existing_id_rejected:
  assumes "read_outcome w = Succeeds"
  shows
   "(item_id item \<in> sb_id ` set (sidebar (current w)) \<longrightarrow>
       addItem_stdio item w =
         (text_response (ascii ''Failed to add item: Sidebar item with ID '' @ item_id item @
                         ascii '' already exists''), w) \<and>
       addItem_http rt item w =
         (text_response (ascii ''Failed to add item: Sidebar item with ID '' @ item_id item @
                         ascii '' already exists''), w)) \<and>
    (item_id item \<notin> sb_id ` set (sidebar (current w)) \<and>
     item_id item \<in> page_id ` set (pages (current w)) \<longrightarrow>
       addItem_stdio item w =
         (text_response (ascii ''Failed to add item: Page with ID '' @ item_id item @
                         ascii '' already exists''), w) \<and>
       addItem_http rt item w =
         (text_response (ascii ''Failed to add item: Page with ID '' @ item_id item @
                         ascii '' already exists''), w))"
  using assms
  by (simp add: addItem_stdio_def addItem_stdio_body_def addItem_http_def addItem_http_body_def
      handler_simps)

theorem addItem_existing_id_rejected_witness:
  "addItem_stdio home_item (healthy (Some home_doc)) =
     (text_response (ascii ''Failed to add item: Sidebar item with ID home already exists''),
      healthy (Some home_doc)) \<and>
   addItem_http latin1 (item_only (ascii ''p'')) (healthy (Some lopsided_doc)) =
     (text_response (ascii ''Failed to add item: Page with ID p already exists''),
      healthy (Some lopsided_doc))"
  using addItem_existing_id_rejected[of "healthy (Some home_doc)" home_item latin1]
    addItem_existing_id_rejected[of "healthy (Some lopsided_doc)" "item_only (ascii ''p'')" latin1]
  by (simp add: example_defs home_item_def item_only_def home_doc_def lopsided_doc_def)

section \<open>Deleting an item (C6, C9)\<close>

text \<open>
  C6. When the read succeeds: if the id is that of a sidebar entry (the first such being
  \<open>e\<close>, between \<open>xs\<close> and \<open>ys\<close>) and of no page, a successful \<open>deleteItem\<close> stores the
  document with \<open>e\<close> removed from the sidebar and the pages as they were; the same with the
  two sequences exchanged; and if the id is in neither sequence, the world is returned as
  it was with the not-found message.
\<close>

theorem deleteItem_one_sequence:
  assumes "read_outcome w = Succeeds"
  shows
   "(write_outcome w = Succeeds \<and>
     sidebar (current w) = xs @ e # ys \<and> sb_id e = ident \<and> ident \<notin> sb_id ` set xs \<and>
     ident \<notin> page_id ` set (pages (current w)) \<longrightarrow>
       stored (snd (deleteItem ident w)) = Some ((current w)\<lparr>sidebar := xs @ ys\<rparr>)) \<and>
    (write_outcome w = Succeeds \<and>
     pages (current w) = ps @ p # qs \<and> page_id p = ident \<and> ident \<notin> page_id ` set ps \<and>
     ident \<notin> sb_id ` set (sidebar (current w)) \<longrightarrow>
       stored (snd (deleteItem ident w)) = Some ((current w)\<lparr>pages := ps @ qs\<rparr>)) \<and>
    (ident \<notin> sb_id ` set (sidebar (current w)) \<and> ident \<notin> page_id ` set (pages (current w)) \<longrightarrow>
       deleteItem ident w =
         (text_response (ascii ''Item with ID '' @ ident @
                         ascii '' not found in either sidebar or pages''), w))"
proof (intro conjI impI)
  assume h: "write_outcome w = Succeeds \<and>
     sidebar (current w) = xs @ e # ys \<and> sb_id e = ident \<and> ident \<notin> sb_id ` set xs \<and>
     ident \<notin> page_id ` set (pages (current w))"
  then have found: "ident \<in> sb_id ` set (sidebar (current w)) \<or>
                    ident \<in> page_id ` set (pages (current w))"
    by auto
  have "remove_first (\<lambda>item. sb_id item = ident) (sidebar (current w)) = xs @ ys"
    using h by (simp add: remove_first_at)
  moreover have "remove_first (\<lambda>item. page_id item = ident) (pages (current w)) = pages (current w)"
    using h by (simp add: remove_first_absent)
  ultimately show "stored (snd (deleteItem ident w)) = Some ((current w)\<lparr>sidebar := xs @ ys\<rparr>)"
    using deleteItem_found[OF assms _ found] h by simp
next
  assume h: "write_outcome w = Succeeds \<and>
     pages (current w) = ps @ p # qs \<and> page_id p = ident \<and> ident \<notin> page_id ` set ps \<and>
     ident \<notin> sb_id ` set (sidebar (current w))"
  then have found: "ident \<in> sb_id ` set (sidebar (current w)) \<or>
                    ident \<in> page_id ` set (pages (current w))"
    by auto
  have "remove_first (\<lambda>item. page_id item = ident) (pages (current w)) = ps @ qs"
    using h by (simp add: remove_first_at)
  moreover have "remove_first (\<lambda>item. sb_id item = ident) (sidebar (current w)) = sidebar (current w)"
    using h by (simp add: remove_first_absent)
  ultimately show "stored (snd (deleteItem ident w)) = Some ((current w)\<lparr>pages := ps @ qs\<rparr>)"
    using deleteItem_found[OF assms _ found] h by simp
next
  assume "ident \<notin> sb_id ` set (sidebar (current w)) \<and> ident \<notin> page_id ` set (pages (current w))"
  then show "deleteItem ident w =
         (text_response (ascii ''Item with ID '' @ ident @
                         ascii '' not found in either sidebar or pages''), w)"
    using deleteItem_absent[OF assms] by simp
qed

theorem deleteItem_one_sequence_witness:
  "stored (snd (deleteItem (ascii ''s'') (healthy (Some lopsided_doc)))) =
     Some \<lparr>pages = [\<lparr>page_id = ascii ''p'', page_title = ascii ''P'', page_content = []\<rparr>],
           sidebar = [\<lparr>sb_id = ascii ''t'', sb_label = ascii ''T'', sb_active = False\<rparr>]\<rparr> \<and>
   stored (snd (deleteItem (ascii ''p'') (healthy (Some lopsided_doc)))) =
     Some \<lparr>pages = [],
           sidebar = [\<lparr>sb_id = ascii ''s'', sb_label = ascii ''S'', sb_active = False\<rparr>,
                      \<lparr>sb_id = ascii ''t'', sb_label = ascii ''T'', sb_active = False\<rparr>]\<rparr> \<and>
   deleteItem (ascii ''q'') (healthy (Some lopsided_doc)) =
     (text_response (ascii ''Item with ID q not found in either sidebar or pages''),
      healthy (Some lopsided_doc))"
  using
    deleteItem_one_sequence[of "healthy (Some lopsided_doc)" "[]"
      "\<lparr>sb_id = ascii ''s'', sb_label = ascii ''S'', sb_active = False\<rparr>"
      "[\<lparr>sb_id = ascii ''t'', sb_label = ascii ''T'', sb_active = False\<rparr>]" "ascii ''s''" "[]"
      "\<lparr>page_id = ascii ''p'', page_title = ascii ''P'', page_content = []\<rparr>" "[]"]
    deleteItem_one_sequence[of "healthy (Some lopsided_doc)" "[]"
      "\<lparr>sb_id = ascii ''s'', sb_label = ascii ''S'', sb_active = False\<rparr>"
      "[\<lparr>sb_id = ascii ''t'', sb_label = ascii ''T'', sb_active = False\<rparr>]" "ascii ''p''" "[]"
      "\<lparr>page_id = ascii ''p'', page_title = ascii ''P'', page_content = []\<rparr>" "[]"]
    deleteItem_one_sequence[of "healthy (Some lopsided_doc)" "[]"
      "\<lparr>sb_id = ascii ''s'', sb_label = ascii ''S'', sb_active = False\<rparr>"
      "[\<lparr>sb_id = ascii ''t'', sb_label = ascii ''T'', sb_active = False\<rparr>]" "ascii ''q''" "[]"
      "\<lparr>page_id = ascii ''p'', page_title = ascii ''P'', page_content = []\<rparr>" "[]"]
  by (simp add: example_defs lopsided_doc_def)

text \<open>
  C9. A successful \<open>deleteItem\<close> removes from each sequence the first entry with the id
  and nothing else: where a sequence is \<open>xs @ e # ys\<close> with \<open>e\<close> the first entry with the
  id, it becomes \<open>xs @ ys\<close>, whatever entries with that id \<open>ys\<close> still holds.
\<close>

theorem deleteItem_first_match_only:
  assumes "read_outcome w = Succeeds" and "write_outcome w = Succeeds"
    and "ident \<in> sb_id ` set (sidebar (current w)) \<or> ident \<in> page_id ` set (pages (current w))"
  shows
   "stored (snd (deleteItem ident w)) =
      Some ((current w)
        \<lparr>sidebar := remove_first (\<lambda>item. sb_id item = ident) (sidebar (current w)),
         pages := remove_first (\<lambda>item. page_id item = ident) (pages (current w))\<rparr>) \<and>
    (sidebar (current w) = xs @ e # ys \<and> sb_id e = ident \<and> ident \<notin> sb_id ` set xs \<longrightarrow>
       remove_first (\<lambda>item. sb_id item = ident) (sidebar (current w)) = xs @ ys) \<and>
    (pages (current w) = ps @ p # qs \<and> page_id p = ident \<and> ident \<notin> page_id ` set ps \<longrightarrow>
       remove_first (\<lambda>item. page_id item = ident) (pages (current w)) = ps @ qs)"
  using deleteItem_found[OF assms] by (simp add: remove_first_at)

theorem deleteItem_first_match_only_witness:
  "stored (snd (deleteItem (ascii ''x'') (healthy (Some twice_doc)))) =
     Some \<lparr>pages = [\<lparr>page_id = ascii ''a'', page_title = ascii ''A'', page_content = []\<rparr>,
                    \<lparr>page_id = ascii ''x'', page_title = ascii ''second'', page_content = []\<rparr>],
           sidebar = [\<lparr>sb_id = ascii ''b'', sb_label = ascii ''B'', sb_active = False\<rparr>,
                      \<lparr>sb_id = ascii ''x'', sb_label = ascii ''second'', sb_active = True\<rparr>]\<rparr>"
  using deleteItem_first_match_only[of "healthy (Some twice_doc)" "ascii ''x''" "[]"
      "\<lparr>sb_id = ascii ''x'', sb_label = ascii ''first'', sb_active = False\<rparr>"
      "[\<lparr>sb_id = ascii ''b'', sb_label = ascii ''B'', sb_active = False\<rparr>,
        \<lparr>sb_id = ascii ''x'', sb_label = ascii ''second'', sb_active = True\<rparr>]"
      "[\<lparr>page_id = ascii ''a'', page_title = ascii ''A'', page_content = []\<rparr>]"
      "\<lparr>page_id = ascii ''x'', page_title = ascii ''first'', page_content = []\<rparr>"
      "[\<lparr>page_id = ascii ''x'', page_title = ascii ''second'', page_content = []\<rparr>]"]
  by (simp add: example_defs twice_doc_def)

section \<open>Updating an item (C2, C5)\<close>

text \<open>
  C2, as the code has it. After a successful \<open>updateItem\<close> of an id that occurs, with
  \<open>newItem.id\<close> absent or equal to \<open>oldId\<close>, the stdio server has rewritten the first
  entry with that id in each sequence and nothing else: the id stays, each supplied field
  is overwritten, each omitted field keeps its value. The HTTP server, with \<open>newItem.id\<close>
  absent, keeps the id as well and overwrites a supplied non-empty field, but sets every
  omitted field to its template: the label to the capitalized id, \<open>active\<close> to false, the
  title to \<open>Page {id}\<close> and the content to \<open>Welcome to the page {id}\<close>.
\<close>

theorem updateItem_omitted_fields:
  assumes "read_outcome w = Succeeds" and "write_outcome w = Succeeds"
    and "oldId \<in> sb_id ` set (sidebar (current w)) \<or> oldId \<in> page_id ` set (pages (current w))"
  shows
   "(new_id newItem = None \<or> new_id newItem = Some oldId \<longrightarrow>
       stored (snd (updateItem_stdio oldId newItem w)) =
         Some ((current w)
           \<lparr>sidebar := update_first (\<lambda>item. sb_id item = oldId)
              (\<lambda>old. old\<lparr>sb_label := (case new_label newItem of None \<Rightarrow> sb_label old | Some l \<Rightarrow> l),
                         sb_active := (case new_active newItem of None \<Rightarrow> sb_active old | Some a \<Rightarrow> a)\<rparr>)
              (sidebar (current w)),
            pages := update_first (\<lambda>item. page_id item = oldId)
              (\<lambda>old. old\<lparr>page_title := (case new_title newItem of None \<Rightarrow> page_title old | Some t \<Rightarrow> t),
                         page_content := (case new_content newItem of None \<Rightarrow> page_content old
                                          | Some c \<Rightarrow> c)\<rparr>)
              (pages (current w))\<rparr>)) \<and>
    (new_id newItem = None \<longrightarrow>
       stored (snd (updateItem_http rt oldId newItem w)) =
         Some ((current w)
           \<lparr>sidebar := update_first (\<lambda>item. sb_id item = oldId)
              (\<lambda>old. old\<lparr>sb_label := or_else (new_label newItem) (capitalizeFirstLetter rt oldId),
                         sb_active := (case new_active newItem of None \<Rightarrow> False | Some a \<Rightarrow> a)\<rparr>)
              (sidebar (current w)),
            pages := update_first (\<lambda>item. page_id item = oldId)
              (\<lambda>old. old\<lparr>page_title := or_else (new_title newItem) (ascii ''Page '' @ oldId),
                         page_content := or_else (new_content newItem)
                                           (ascii ''Welcome to the page '' @ oldId)\<rparr>)
              (pages (current w))\<rparr>))"
proof (intro conjI impI)
  assume same: "new_id newItem = None \<or> new_id newItem = Some oldId"
  then have free: "\<not> new_id_collides oldId newItem (current w)"
    by (auto simp: new_id_collides_iff)
  have sb: "update_first (\<lambda>item. sb_id item = oldId)
              (\<lambda>old. \<lparr>sb_id = nullish (new_id newItem) (sb_id old),
                      sb_label = nullish (new_label newItem) (sb_label old),
                      sb_active = nullish (new_active newItem) (sb_active old)\<rparr>) xs =
            update_first (\<lambda>item. sb_id item = oldId)
              (\<lambda>old. old\<lparr>sb_label := (case new_label newItem of None \<Rightarrow> sb_label old | Some l \<Rightarrow> l),
                         sb_active := (case new_active newItem of None \<Rightarrow> sb_active old | Some a \<Rightarrow> a)\<rparr>)
              xs" for xs
    using same by (intro update_first_cong) (auto simp: nullish_def split: option.splits)
  have pg: "update_first (\<lambda>item. page_id item = oldId)
              (\<lambda>old. \<lparr>page_id = nullish (new_id newItem) (page_id old),
                      page_title = nullish (new_title newItem) (page_title old),
                      page_content = nullish (new_content newItem) (page_content old)\<rparr>) xs =
            update_first (\<lambda>item. page_id item = oldId)
              (\<lambda>old. old\<lparr>page_title := (case new_title newItem of None \<Rightarrow> page_title old | Some t \<Rightarrow> t),
                         page_content := (case new_content newItem of None \<Rightarrow> page_content old
                                          | Some c \<Rightarrow> c)\<rparr>)
              xs" for xs
    using same by (intro update_first_cong) (auto simp: nullish_def split: option.splits)
  show "stored (snd (updateItem_stdio oldId newItem w)) =
         Some ((current w)
           \<lparr>sidebar := update_first (\<lambda>item. sb_id item = oldId)
              (\<lambda>old. old\<lparr>sb_label := (case new_label newItem of None \<Rightarrow> sb_label old | Some l \<Rightarrow> l),
                         sb_active := (case new_active newItem of None \<Rightarrow> sb_active old | Some a \<Rightarrow> a)\<rparr>)
              (sidebar (current w)),
            pages := update_first (\<lambda>item. page_id item = oldId)
              (\<lambda>old. old\<lparr>page_title := (case new_title newItem of None \<Rightarrow> page_title old | Some t \<Rightarrow> t),
                         page_content := (case new_content newItem of None \<Rightarrow> page_content old
                                          | Some c \<Rightarrow> c)\<rparr>)
              (pages (current w))\<rparr>)"
    using updateItem_stdio_written[OF assms free] by (simp only: sb pg)
next
  assume absent: "new_id newItem = None"
  then have free: "\<not> new_id_collides oldId newItem (current w)"
    by (auto simp: new_id_collides_iff)
  have sb: "update_first (\<lambda>item. sb_id item = oldId) (\<lambda>old. http_sidebar_entry rt oldId newItem) xs =
            update_first (\<lambda>item. sb_id item = oldId)
              (\<lambda>old. old\<lparr>sb_label := or_else (new_label newItem) (capitalizeFirstLetter rt oldId),
                         sb_active := (case new_active newItem of None \<Rightarrow> False | Some a \<Rightarrow> a)\<rparr>)
              xs" for xs
    using absent
    by (intro update_first_cong) (auto simp: http_sidebar_entry_def nullish_def split: option.splits)
  have pg: "update_first (\<lambda>item. page_id item = oldId) (\<lambda>old. http_page_entry rt oldId newItem) xs =
            update_first (\<lambda>item. page_id item = oldId)
              (\<lambda>old. old\<lparr>page_title := or_else (new_title newItem) (ascii ''Page '' @ oldId),
                         page_content := or_else (new_content newItem)
                                           (ascii ''Welcome to the page '' @ oldId)\<rparr>)
              xs" for xs
    using absent by (intro update_first_cong) (auto simp: http_page_entry_def)
  show "stored (snd (updateItem_http rt oldId newItem w)) =
         Some ((current w)
           \<lparr>sidebar := update_first (\<lambda>item. sb_id item = oldId)
              (\<lambda>old. old\<lparr>sb_label := or_else (new_label newItem) (capitalizeFirstLetter rt oldId),
                         sb_active := (case new_active newItem of None \<Rightarrow> False | Some a \<Rightarrow> a)\<rparr>)
              (sidebar (current w)),
            pages := update_first (\<lambda>item. page_id item = oldId)
              (\<lambda>old. old\<lparr>page_title := or_else (new_title newItem) (ascii ''Page '' @ oldId),
                         page_content := or_else (new_content newItem)
                                           (ascii ''Welcome to the page '' @ oldId)\<rparr>)
              (pages (current w))\<rparr>)"
    using updateItem_http_written[OF assms free] by (simp only: sb pg)
qed

theorem updateItem_omitted_fields_witness:
  "stored (snd (updateItem_stdio (ascii ''home'') (no_change\<lparr>new_label := Some (ascii ''Menu'')\<rparr>)
                  (healthy (Some hello_doc)))) =
     Some \<lparr>pages = [\<lparr>page_id = ascii ''home'', page_title = ascii ''Home'',
                      page_content = ascii ''Hello''\<rparr>],
           sidebar = [\<lparr>sb_id = ascii ''home'', sb_label = ascii ''Menu'', sb_active = True\<rparr>]\<rparr> \<and>
   stored (snd (updateItem_http latin1 (ascii ''home'') (no_change\<lparr>new_label := Some (ascii ''Menu'')\<rparr>)
                  (healthy (Some hello_doc)))) =
     Some \<lparr>pages = [\<lparr>page_id = ascii ''home'', page_title = ascii ''Page home'',
                      page_content = ascii ''Welcome to the page home''\<rparr>],
           sidebar = [\<lparr>sb_id = ascii ''home'', sb_label = ascii ''Menu'', sb_active = False\<rparr>]\<rparr>"
  using updateItem_omitted_fields[of "healthy (Some hello_doc)" "ascii ''home''"
      "no_change\<lparr>new_label := Some (ascii ''Menu'')\<rparr>" latin1]
  by (simp add: example_defs no_change_def hello_doc_def)

text \<open>
  On the HTTP server an update that supplies only a label replaces the title \<open>Home\<close>, the
  content \<open>Hello\<close> and the flag \<open>active\<close> of the entry, none of which was supplied.
\<close>

theorem updateItem_http_resets_omitted_counterexample:
  "new_id (no_change\<lparr>new_label := Some (ascii ''Menu'')\<rparr>) = None \<and>
   new_title (no_change\<lparr>new_label := Some (ascii ''Menu'')\<rparr>) = None \<and>
   new_content (no_change\<lparr>new_label := Some (ascii ''Menu'')\<rparr>) = None \<and>
   new_active (no_change\<lparr>new_label := Some (ascii ''Menu'')\<rparr>) = None \<and>
   pages hello_doc =
     [\<lparr>page_id = ascii ''home'', page_title = ascii ''Home'', page_content = ascii ''Hello''\<rparr>] \<and>
   sidebar hello_doc =
     [\<lparr>sb_id = ascii ''home'', sb_label = ascii ''Start'', sb_active = True\<rparr>] \<and>
   stored (snd (updateItem_http latin1 (ascii ''home'') (no_change\<lparr>new_label := Some (ascii ''Menu'')\<rparr>)
                  (healthy (Some hello_doc)))) =
     Some \<lparr>pages = [\<lparr>page_id = ascii ''home'', page_title = ascii ''Page home'',
                      page_content = ascii ''Welcome to the page home''\<rparr>],
           sidebar = [\<lparr>sb_id = ascii ''home'', sb_label = ascii ''Menu'', sb_active = False\<rparr>]\<rparr>"
  by (simp add: updateItem_http_def updateItem_http_body_def eval_defs example_defs
      no_change_def hello_doc_def)

text \<open>
  C5, as the code has it. When the read succeeds, \<open>oldId\<close> occurs, and \<open>newItem.id\<close> is
  supplied, not empty, different from \<open>oldId\<close> and the id of an existing sidebar entry or
  page, \<open>updateItem\<close> (stdio and HTTP server alike) returns the world as it was, with the
  message \<open>Failed to update item: New ID ... already exists\<close>.
\<close>

theorem updateItem_colliding_id_rejected:
  assumes "read_outcome w = Succeeds"
    and "oldId \<in> sb_id ` set (sidebar (current w)) \<or> oldId \<in> page_id ` set (pages (current w))"
    and "new_id newItem = Some n" and "n \<noteq> []" and "n \<noteq> oldId"
    and "n \<in> sb_id ` set (sidebar (current w)) \<or> n \<in> page_id ` set (pages (current w))"
  shows
   "updateItem_stdio oldId newItem w =
      (text_response (ascii ''Failed to update item: New ID '' @ n @ ascii '' already exists''), w) \<and>
    updateItem_http rt oldId newItem w =
      (text_response (ascii ''Failed to update item: New ID '' @ n @ ascii '' already exists''), w)"
  using updateItem_stdio_collision[OF assms] updateItem_http_collision[OF assms] by simp

theorem updateItem_colliding_id_rejected_witness:
  "updateItem_stdio [] (no_change\<lparr>new_id := Some (ascii ''a'')\<rparr>) (healthy (Some empty_id_doc)) =
     (text_response (ascii ''Failed to update item: New ID a already exists''),
      healthy (Some empty_id_doc)) \<and>
   updateItem_http latin1 [] (no_change\<lparr>new_id := Some (ascii ''a'')\<rparr>) (healthy (Some empty_id_doc)) =
     (text_response (ascii ''Failed to update item: New ID a already exists''),
      healthy (Some empty_id_doc))"
  using updateItem_colliding_id_rejected[of "healthy (Some empty_id_doc)" "[]"
      "no_change\<lparr>new_id := Some (ascii ''a'')\<rparr>" "ascii ''a''" latin1]
  by (simp add: example_defs no_change_def empty_id_doc_def)

text \<open>
  The guard is \<open>newItem.id && ...\<close>, so the empty string counts as no new id. On the HTTP
  server, renaming \<open>a\<close> to the empty id, which another entry has, is carried out as an
  update without a new id: it is written and reported a success.
\<close>

theorem updateItem_empty_new_id_counterexample:
  "new_id (no_change\<lparr>new_id := Some []\<rparr>) = Some [] \<and> [] \<noteq> ascii ''a'' \<and>
   ascii ''a'' \<in> sb_id ` set (sidebar empty_id_doc) \<and> [] \<in> sb_id ` set (sidebar empty_id_doc) \<and>
   stored (snd (updateItem_http latin1 (ascii ''a'') (no_change\<lparr>new_id := Some []\<rparr>)
                  (healthy (Some empty_id_doc)))) =
     Some \<lparr>pages = [\<lparr>page_id = ascii ''a'', page_title = ascii ''Page a'',
                      page_content = ascii ''Welcome to the page a''\<rparr>,
                    \<lparr>page_id = [], page_title = ascii ''Blank'', page_content = ascii ''Two''\<rparr>],
           sidebar = [\<lparr>sb_id = ascii ''a'', sb_label = ascii ''A'', sb_active = False\<rparr>,
                      \<lparr>sb_id = [], sb_label = ascii ''Blank'', sb_active = False\<rparr>]\<rparr> \<and>
   stored (snd (updateItem_http latin1 (ascii ''a'') (no_change\<lparr>new_id := Some []\<rparr>)
                  (healthy (Some empty_id_doc)))) \<noteq> Some empty_id_doc \<and>
   length (updates (snd (updateItem_http latin1 (ascii ''a'') (no_change\<lparr>new_id := Some []\<rparr>)
                           (healthy (Some empty_id_doc))))) = 1 \<and>
   take 35 (response_text (fst (updateItem_http latin1 (ascii ''a'') (no_change\<lparr>new_id := Some []\<rparr>)
                                  (healthy (Some empty_id_doc))))) =
     ascii ''Successfully updated item with ID a''"
  by (simp add: updateItem_http_def updateItem_http_body_def update_text_def eval_defs
      example_defs no_change_def empty_id_doc_def)

text \<open>
  The stdio server skips the scan for the empty id in the same way, but then stores it
  (\<open>newItem.id ?? ...\<close>): the entry \<open>a\<close> is renamed to the empty id, beside the entry that
  has it already.
\<close>

lemma updateItem_stdio_empty_new_id:
  "unique_ids empty_id_doc \<and>
   stored (snd (updateItem_stdio (ascii ''a'') (no_change\<lparr>new_id := Some []\<rparr>)
                  (healthy (Some empty_id_doc)))) =
     Some \<lparr>pages = [\<lparr>page_id = [], page_title = ascii ''Alpha'', page_content = ascii ''One''\<rparr>,
                    \<lparr>page_id = [], page_title = ascii ''Blank'', page_content = ascii ''Two''\<rparr>],
           sidebar = [\<lparr>sb_id = [], sb_label = ascii ''Alpha'', sb_active = True\<rparr>,
                      \<lparr>sb_id = [], sb_label = ascii ''Blank'', sb_active = False\<rparr>]\<rparr> \<and>
   take 35 (response_text (fst (updateItem_stdio (ascii ''a'') (no_change\<lparr>new_id := Some []\<rparr>)
                                  (healthy (Some empty_id_doc))))) =
     ascii ''Successfully updated item with ID a''"
  by (simp add: updateItem_stdio_def updateItem_stdio_body_def update_text_def eval_defs
      example_defs no_change_def empty_id_doc_def unique_ids_def)

section \<open>Uniqueness of ids (C1)\<close>

text \<open>
  What does hold: \<open>deleteItem\<close> and the stdio \<open>addItem\<close> never leave a document with a
  repeated id behind when they started from one without.
\<close>

lemma deleteItem_keeps_unique_ids:
  assumes "read_outcome w = Succeeds" and "write_outcome w = Succeeds"
    and "unique_ids (current w)"
  shows "unique_ids (current (snd (deleteItem ident w)))"
proof (cases "ident \<in> sb_id ` set (sidebar (current w)) \<or> ident \<in> page_id ` set (pages (current w))")
  case True
  from deleteItem_found[OF assms(1,2) True] assms(3) show ?thesis
    by (simp add: current_def unique_ids_def remove_first_distinct)
next
  case False
  with deleteItem_absent[OF assms(1), of ident] assms(3) show ?thesis
    by simp
qed

lemma addItem_stdio_keeps_unique_ids:
  assumes "read_outcome w = Succeeds" and "write_outcome w = Succeeds"
    and "unique_ids (current w)"
  shows "unique_ids (current (snd (addItem_stdio item w)))"
proof (cases "item_id item \<in> sb_id ` set (sidebar (current w)) \<or>
              item_id item \<in> page_id ` set (pages (current w))")
  case True
  from addItem_stdio_duplicate[OF assms(1) True] assms(3) show ?thesis
    by simp
next
  case False
  then have "item_id item \<notin> sb_id ` set (sidebar (current w))"
    and "item_id item \<notin> page_id ` set (pages (current w))"
    by simp_all
  from addItem_stdio_fresh[OF assms(1,2) this] assms(3) False show ?thesis
    by (simp add: current_def unique_ids_def)
qed

text \<open>
  The stateless \<open>addItem\<close> has the same scan on the id as given and the same insertion of
  the lower-cased id as \<open>toolHandlers["addItem"]\<close>.
\<close>

lemma addItem_stateless_case_fold:
  "unique_idsS \<lparr>pagesS = [\<lparr>pageS_id = ascii ''home'', pageS_title = ascii ''Home''\<rparr>],
                sidebarS = [\<lparr>sbS_id = ascii ''home'', sbS_label = ascii ''Home''\<rparr>]\<rparr> \<and>
   snd (addItem_stateless latin1
          \<lparr>pagesS = [\<lparr>pageS_id = ascii ''home'', pageS_title = ascii ''Home''\<rparr>],
           sidebarS = [\<lparr>sbS_id = ascii ''home'', sbS_label = ascii ''Home''\<rparr>]\<rparr>
          \<lparr>itemS_id = ascii ''Home'', itemS_label = None, itemS_title = None\<rparr>) =
     Some \<lparr>pagesS = [\<lparr>pageS_id = ascii ''home'', pageS_title = ascii ''Home''\<rparr>,
                     \<lparr>pageS_id = ascii ''home'', pageS_title = ascii ''Page Home''\<rparr>],
           sidebarS = [\<lparr>sbS_id = ascii ''home'', sbS_label = ascii ''Home''\<rparr>,
                       \<lparr>sbS_id = ascii ''home'', sbS_label = ascii ''Home''\<rparr>]\<rparr>"
  by (simp add: addItem_stateless_def unique_idsS_def eval_defs example_defs)

text \<open>
  \<open>toolHandlers["updateItem"]\<close> scans for \<open>newItem.id\<close> as given and stores it lower-cased
  too: renaming the entry with the empty id to \<open>A\<close> beside the entry \<open>a\<close> leaves \<open>a\<close> twice.
\<close>

lemma updateItem_http_case_fold:
  "unique_ids empty_id_doc \<and>
   stored (snd (updateItem_http latin1 [] (no_change\<lparr>new_id := Some (ascii ''A'')\<rparr>)
                  (healthy (Some empty_id_doc)))) =
     Some \<lparr>pages = [\<lparr>page_id = ascii ''a'', page_title = ascii ''Alpha'', page_content = ascii ''One''\<rparr>,
                    \<lparr>page_id = ascii ''a'', page_title = ascii ''Page A'',
                      page_content = ascii ''Welcome to the page A''\<rparr>],
           sidebar = [\<lparr>sb_id = ascii ''a'', sb_label = ascii ''Alpha'', sb_active = True\<rparr>,
                      \<lparr>sb_id = ascii ''a'', sb_label = ascii ''A'', sb_active = False\<rparr>]\<rparr>"
  by (simp add: updateItem_http_def updateItem_http_body_def eval_defs example_defs no_change_def
      empty_id_doc_def unique_ids_def)

text \<open>
  C1. Claimed: from a document in which no two pages and no two sidebar entries share an
  id, every successful \<open>addItem\<close>, \<open>deleteItem\<close> and \<open>updateItem\<close> produces such a document.
  The HTTP server's \<open>addItem\<close> scans for the id as given and stores it lower-cased: on the
  document holding \<open>home\<close>, adding \<open>Home\<close> passes the scan, is written and reported a
  success, and leaves \<open>home\<close> twice in both sequences.
\<close>

theorem addItem_case_fold_breaks_unique_ids:
  "unique_ids home_doc \<and>
   stored (snd (addItem_http latin1 (item_only (ascii ''Home'')) (healthy (Some home_doc)))) =
     Some \<lparr>pages = [\<lparr>page_id = ascii ''home'', page_title = ascii ''Home'', page_content = []\<rparr>,
                    \<lparr>page_id = ascii ''home'', page_title = ascii ''Page Home'', page_content = []\<rparr>],
           sidebar = [\<lparr>sb_id = ascii ''home'', sb_label = ascii ''Home'', sb_active = False\<rparr>,
                      \<lparr>sb_id = ascii ''home'', sb_label = ascii ''Home'', sb_active = False\<rparr>]\<rparr> \<and>
   \<not> unique_ids (the (stored (snd (addItem_http latin1 (item_only (ascii ''Home''))
                                      (healthy (Some home_doc)))))) \<and>
   take 36 (response_text (fst (addItem_http latin1 (item_only (ascii ''Home''))
                                  (healthy (Some home_doc))))) =
     ascii ''Successfully added item with ID Home''"
  by (simp add: addItem_http_def addItem_http_body_def eval_defs example_defs item_only_def
      home_doc_def unique_ids_def)

section \<open>Failures are answered, never raised (C7)\<close>

text \<open>
  C7. Whatever the input and whatever the store does on the read and on the write, each of
  \<open>addItem\<close>, \<open>deleteItem\<close> and \<open>updateItem\<close> (stdio and HTTP server) returns a response of
  the shape \<open>{content: [{type: "text", text}]}\<close> and raises nothing. Its text describes the
  failure when there is one: the message of the read error; the duplicate id on add, the
  absent id on delete and update, the colliding new id on rename; the message of the write
  error; and, for an error raised by the store, the handler's own prefix with its message.
  After every failure the stored document is as it was, and before the write nothing has
  been issued. With no failure the text begins with the handler's success line.
\<close>

theorem handlers_answer_every_outcome:
  "answers_every_outcome (ascii ''Failed to add item: '')
     (addItem_rejection (item_id item) (current w))
     (ascii ''Successfully added item with ID '' @ item_id item) w (addItem_stdio item w) \<and>
   answers_every_outcome (ascii ''Failed to add item: '')
     (addItem_rejection (item_id item) (current w))
     (ascii ''Successfully added item with ID '' @ item_id item) w (addItem_http rt item w) \<and>
   answers_every_outcome (ascii ''Failed to delete item: '')
     (deleteItem_rejection ident (current w))
     (ascii ''Successfully deleted item with ID '' @ ident) w (deleteItem ident w) \<and>
   answers_every_outcome (ascii ''Failed to update item: '')
     (updateItem_rejection oldId newItem (current w))
     (ascii ''Successfully updated item with ID '' @ oldId) w (updateItem_stdio oldId newItem w) \<and>
   answers_every_outcome (ascii ''Failed to update item: '')
     (updateItem_rejection oldId newItem (current w))
     (ascii ''Successfully updated item with ID '' @ oldId) w (updateItem_http rt oldId newItem w)"
  by (simp add: addItem_stdio_answers addItem_http_answers deleteItem_answers
      updateItem_stdio_answers updateItem_http_answers)

theorem handlers_answer_every_outcome_witness:
  "addItem_stdio (item_only (ascii ''about'')) read_fails =
     (text_response (ascii ''Failed to load config from database: timeout''), read_fails) \<and>
   addItem_http latin1 (item_only (ascii ''about'')) read_throws =
     (text_response (ascii ''Failed to add item: fetch failed''), read_throws) \<and>
   updateItem_http latin1 (ascii ''home'') no_change read_throws =
     (text_response (ascii ''Failed to update item: fetch failed''), read_throws) \<and>
   fst (deleteItem (ascii ''home'') write_fails) =
     text_response (ascii ''Failed to update config in database: disk full'') \<and>
   stored (snd (deleteItem (ascii ''home'') write_fails)) = Some home_doc \<and>
   fst (updateItem_stdio (ascii ''home'') no_change write_fails) =
     text_response (ascii ''Failed to update config in database: disk full'') \<and>
   addItem_http latin1 (item_only (ascii ''home'')) (healthy (Some home_doc)) =
     (text_response (ascii ''Failed to add item: Sidebar item with ID home already exists''),
      healthy (Some home_doc)) \<and>
   deleteItem (ascii ''zz'') (healthy (Some home_doc)) =
     (text_response (ascii ''Item with ID zz not found in either sidebar or pages''),
      healthy (Some home_doc)) \<and>
   updateItem_stdio (ascii ''zz'') no_change (healthy (Some home_doc)) =
     (text_response (ascii ''Item with ID zz not found in either sidebar or pages''),
      healthy (Some home_doc)) \<and>
   updateItem_http latin1 (ascii ''zz'') no_change (healthy (Some home_doc)) =
     (text_response (ascii ''Item with ID zz not found in either sidebar or pages''),
      healthy (Some home_doc)) \<and>
   take (length (ascii ''Successfully added item with ID about''))
     (response_text (fst (addItem_stdio (item_only (ascii ''about'')) (healthy (Some home_doc))))) =
     ascii ''Successfully added item with ID about''"
proof -
  note unfold = answers_every_outcome_def addItem_rejection_def deleteItem_rejection_def
    updateItem_rejection_def read_fails_def read_throws_def write_fails_def
    example_defs item_only_def no_change_def home_doc_def
  note on_read_error =
    handlers_answer_every_outcome[of "item_only (ascii ''about'')" read_fails latin1
      "ascii ''home''" "ascii ''home''" no_change]
  note on_read_raised =
    handlers_answer_every_outcome[of "item_only (ascii ''about'')" read_throws latin1
      "ascii ''home''" "ascii ''home''" no_change]
  note on_write_error =
    handlers_answer_every_outcome[of "item_only (ascii ''about'')" write_fails latin1
      "ascii ''home''" "ascii ''home''" no_change]
  note on_rejection =
    handlers_answer_every_outcome[of "item_only (ascii ''home'')" "healthy (Some home_doc)" latin1
      "ascii ''zz''" "ascii ''zz''" no_change]
  note on_success =
    handlers_answer_every_outcome[of "item_only (ascii ''about'')" "healthy (Some home_doc)" latin1
      "ascii ''zz''" "ascii ''zz''" no_change]
  have "addItem_stdio (item_only (ascii ''about'')) read_fails =
     (text_response (ascii ''Failed to load config from database: timeout''), read_fails)"
    using on_read_error[THEN conjunct1] by (simp add: unfold)
  moreover have "addItem_http latin1 (item_only (ascii ''about'')) read_throws =
     (text_response (ascii ''Failed to add item: fetch failed''), read_throws)"
    using on_read_raised[THEN conjunct2, THEN conjunct1] by (simp add: unfold)
  moreover have "updateItem_http latin1 (ascii ''home'') no_change read_throws =
     (text_response (ascii ''Failed to update item: fetch failed''), read_throws)"
    using on_read_raised[THEN conjunct2, THEN conjunct2, THEN conjunct2, THEN conjunct2]
    by (simp add: unfold)
  moreover have "fst (deleteItem (ascii ''home'') write_fails) =
       text_response (ascii ''Failed to update config in database: disk full'') \<and>
     stored (snd (deleteItem (ascii ''home'') write_fails)) = Some home_doc"
    using on_write_error[THEN conjunct2, THEN conjunct2, THEN conjunct1] by (simp add: unfold)
  moreover have "fst (updateItem_stdio (ascii ''home'') no_change write_fails) =
       text_response (ascii ''Failed to update config in database: disk full'')"
    using on_write_error[THEN conjunct2, THEN conjunct2, THEN conjunct2, THEN conjunct1]
    by (simp add: unfold)
  moreover have "addItem_http latin1 (item_only (ascii ''home'')) (healthy (Some home_doc)) =
     (text_response (ascii ''Failed to add item: Sidebar item with ID home already exists''),
      healthy (Some home_doc))"
    using on_rejection[THEN conjunct2, THEN conjunct1] by (simp add: unfold)
  moreover have "deleteItem (ascii ''zz'') (healthy (Some home_doc)) =
     (text_response (ascii ''Item with ID zz not found in either sidebar or pages''),
      healthy (Some home_doc))"
    using on_rejection[THEN conjunct2, THEN conjunct2, THEN conjunct1] by (simp add: unfold)
  moreover have "updateItem_stdio (ascii ''zz'') no_change (healthy (Some home_doc)) =
     (text_response (ascii ''Item with ID zz not found in either sidebar or pages''),
      healthy (Some home_doc))"
    using on_rejection[THEN conjunct2, THEN conjunct2, THEN conjunct2, THEN conjunct1]
    by (simp add: unfold)
  moreover have "updateItem_http latin1 (ascii ''zz'') no_change (healthy (Some home_doc)) =
     (text_response (ascii ''Item with ID zz not found in either sidebar or pages''),
      healthy (Some home_doc))"
    using on_rejection[THEN conjunct2, THEN conjunct2, THEN conjunct2, THEN conjunct2]
    by (simp add: unfold)
  moreover have "take (length (ascii ''Successfully added item with ID about''))
     (response_text (fst (addItem_stdio (item_only (ascii ''about'')) (healthy (Some home_doc))))) =
     ascii ''Successfully added item with ID about''"
    using on_success[THEN conjunct1] by (simp add: unfold)
  ultimately show ?thesis
    by (simp only: simp_thms)
qed

section \<open>Reading the document (C8)\<close>

text \<open>
  C8. \<open>GET /api/config\<close>, when the read succeeds, answers the stored document as it is
  when there is one, and the empty document \<open>{pages: [], sidebar: []}\<close> when the stored
  value is absent.
\<close>

theorem getConfig_spec:
  "read_outcome w = Succeeds \<Longrightarrow>
     (stored w = Some c \<longrightarrow> getConfig w = \<lparr>status = 200, body = ConfigBody c\<rparr>) \<and>
     (stored w = None \<longrightarrow>
        getConfig w = \<lparr>status = 200, body = ConfigBody \<lparr>pages = [], sidebar = []\<rparr>\<rparr>)"
  by (simp add: getConfig_def select_config_def emptyState_def)

theorem getConfig_spec_witness:
  "getConfig (healthy (Some home_doc)) = \<lparr>status = 200, body = ConfigBody home_doc\<rparr> \<and>
   getConfig (healthy None) = \<lparr>status = 200, body = ConfigBody \<lparr>pages = [], sidebar = []\<rparr>\<rparr>"
  using getConfig_spec[of "healthy (Some home_doc)" home_doc]
    getConfig_spec[of "healthy None" home_doc]
  by (simp add: healthy_def)

section \<open>\<open>capitalizeFirstLetter\<close> (C10)\<close>

text \<open>
  C10, as the code has it. \<open>capitalizeFirstLetter\<close> returns the empty string unchanged, and
  otherwise the upper-casing of the first code unit followed by the rest unchanged. The
  result is as long as the upper-cased first unit and the rest together: as long as the
  argument whenever upper-casing the first unit gives one unit, as it does for every ASCII
  first character. The default label of the HTTP server's \<open>addItem\<close> for an item with the
  empty id is the empty string.
\<close>

theorem capitalizeFirstLetter_spec:
  "capitalizeFirstLetter rt [] = [] \<and>
   capitalizeFirstLetter rt (c # rest) = toUpperCase rt [c] @ rest \<and>
   length (capitalizeFirstLetter rt (c # rest)) = length (toUpperCase rt [c]) + length rest \<and>
   (length (toUpperCase rt [c]) = 1 \<longrightarrow>
      length (capitalizeFirstLetter rt (c # rest)) = length (c # rest)) \<and>
   (c < 0x80 \<longrightarrow> length (capitalizeFirstLetter latin1 (c # rest)) = length (c # rest)) \<and>
   (read_outcome w = Succeeds \<and> write_outcome w = Succeeds \<and>
    item_id item = [] \<and> item_label item = None \<and>
    [] \<notin> sb_id ` set (sidebar (current w)) \<and> [] \<notin> page_id ` set (pages (current w)) \<longrightarrow>
      (\<exists>c'. stored (snd (addItem_http rt item w)) = Some c' \<and>
            map sb_label (sidebar c') = map sb_label (sidebar (current w)) @ [[]]))"
proof -
  have "length (capitalizeFirstLetter latin1 (c # rest)) = length (c # rest)" if "c < 0x80"
    using that by (auto simp: capitalizeFirstLetter_def latin1_def upper_unit_def)
  moreover have "\<exists>c'. stored (snd (addItem_http rt item w)) = Some c' \<and>
            map sb_label (sidebar c') = map sb_label (sidebar (current w)) @ [[]]"
    if "read_outcome w = Succeeds" "write_outcome w = Succeeds"
       "item_id item = []" "item_label item = None"
       "[] \<notin> sb_id ` set (sidebar (current w))" "[] \<notin> page_id ` set (pages (current w))"
    using addItem_http_fresh[of w item rt] that by (simp add: capitalizeFirstLetter_def)
  ultimately show ?thesis
    by (simp add: capitalizeFirstLetter_def)
qed

theorem capitalizeFirstLetter_spec_witness:
  "capitalizeFirstLetter latin1 [] = [] \<and>
   capitalizeFirstLetter latin1 (ascii ''home'') = ascii ''Home'' \<and>
   length (capitalizeFirstLetter latin1 (ascii ''home'')) = 4 \<and>
   map sb_label (sidebar (the (stored (snd (addItem_http latin1 (item_only [])
                                             (healthy (Some home_doc))))))) =
     [ascii ''Home'', []]"
  using capitalizeFirstLetter_spec[of latin1 "0x68" "ascii ''ome''" "healthy (Some home_doc)"
      "item_only []"]
  by (auto simp: example_defs item_only_def home_doc_def)

text \<open>
  The length is not always kept: sharp s (code unit \<open>0xDF\<close>) upper-cases to the two units
  \<open>SS\<close>, so the one-unit string becomes a two-unit string.
\<close>

theorem capitalizeFirstLetter_length_counterexample:
  "capitalizeFirstLetter latin1 [0xDF] = ascii ''SS'' \<and>
   length (capitalizeFirstLetter latin1 [0xDF]) = 2 \<and> length [0xDF :: 16 word] = 1"
  by (simp add: example_defs)

end
